theory Spec2Isabelle
  imports Complex_Main
begin

section \<open>JavaScript values and library functions used by the backend\<close>

text \<open>
  JavaScript numbers are modelled as reals (rounding of doubles is left out), byte sizes,
  timestamps and latencies as naturals. A value read from parsed JSON is a \<open>field\<close>:
  the key is missing (\<open>undefined\<close>), it holds \<open>null\<close>, or it holds a value of
  the type that the prompt and the Mongoose schema declare for it.
\<close>

datatype 'a field = Undefined | Null | Val 'a

text \<open>Truthiness, as \<open>!x\<close> and \<open>x || d\<close> use it: \<open>undefined\<close>, \<open>null\<close>,
  \<open>0\<close> and the empty string are falsy; every object is truthy.\<close>

fun truthy_str :: "string field \<Rightarrow> bool" where
  "truthy_str (Val s) = (s \<noteq> [])"
| "truthy_str _ = False"

fun truthy_num :: "real field \<Rightarrow> bool" where
  "truthy_num (Val x) = (x \<noteq> 0)"
| "truthy_num _ = False"

fun truthy_obj :: "'a field \<Rightarrow> bool" where
  "truthy_obj (Val x) = True"
| "truthy_obj _ = False"

text \<open>\<open>x || d\<close> on an optional number and on an optional string.\<close>

fun num_or :: "real option \<Rightarrow> real \<Rightarrow> real" where
  "num_or None d = d"
| "num_or (Some x) d = (if x = 0 then d else x)"

fun str_or :: "string option \<Rightarrow> string \<Rightarrow> string" where
  "str_or None d = d"
| "str_or (Some s) d = (if s = [] then d else s)"

text \<open>Decimal rendering of a number inside a template string.\<close>

definition digit_char :: "nat \<Rightarrow> char" where
  "digit_char d = ''0123456789'' ! d"

fun string_of_nat :: "nat \<Rightarrow> string" where
  "string_of_nat n =
     (if n < 10 then [digit_char n]
      else string_of_nat (n div 10) @ [digit_char (n mod 10)])"

declare string_of_nat.simps [simp del]

text \<open>\<open>String.prototype.toLowerCase\<close> on the ASCII letters.\<close>

definition lower_char :: "char \<Rightarrow> char" where
  "lower_char c =
     (case map_of (zip ''ABCDEFGHIJKLMNOPQRSTUVWXYZ'' ''abcdefghijklmnopqrstuvwxyz'') c of
        Some l \<Rightarrow> l
      | None \<Rightarrow> c)"

definition toLowerCase :: "string \<Rightarrow> string" where
  "toLowerCase s = map lower_char s"

text \<open>
  \<open>path.extname\<close> of Node.js (POSIX flavour): one pass over the path from its last
  character to its first. The state is \<open>startDot\<close>, \<open>startPart\<close>, \<open>end\<close>
  (\<open>None\<close> for \<open>-1\<close>), \<open>matchedSlash\<close> and \<open>preDotState\<close>.
  \<open>extname_loop p k st\<close> runs the iterations \<open>i = k - 1\<close> down to \<open>0\<close>.
\<close>

record extname_state =
  startDot :: "nat option"
  startPart :: nat
  endPos :: "nat option"
  matchedSlash :: bool
  preDotState :: int

fun extname_loop :: "string \<Rightarrow> nat \<Rightarrow> extname_state \<Rightarrow> extname_state" where
  "extname_loop p 0 st = st"
| "extname_loop p (Suc i) st =
     (if p ! i = CHR ''/'' then
        (if \<not> matchedSlash st then st\<lparr>startPart := i + 1\<rparr>
         else extname_loop p i st)
      else
        (let st1 = (if endPos st = None
                    then st\<lparr>matchedSlash := False, endPos := Some (i + 1)\<rparr> else st);
             st2 = (if p ! i = CHR ''.'' then
                      (if startDot st1 = None then st1\<lparr>startDot := Some i\<rparr>
                       else if preDotState st1 \<noteq> 1 then st1\<lparr>preDotState := 1\<rparr>
                       else st1)
                    else if startDot st1 \<noteq> None then st1\<lparr>preDotState := -1\<rparr>
                    else st1)
         in extname_loop p i st2))"

definition extname :: "string \<Rightarrow> string" where
  "extname p =
     (let st = extname_loop p (length p)
                 \<lparr>startDot = None, startPart = 0, endPos = None,
                  matchedSlash = True, preDotState = 0\<rparr>
      in case (startDot st, endPos st) of
           (Some sd, Some e) \<Rightarrow>
             (if preDotState st = 0
                 \<or> (preDotState st = 1 \<and> sd + 1 = e \<and> sd = startPart st + 1)
              then [] else take (e - sd) (drop sd p))
         | _ \<Rightarrow> [])"

section \<open>Speech-to-text service (\<open>STTService\<close>)\<close>

text \<open>A segment and the result of the provider's \<open>verbose_json\<close> reply; \<open>None\<close> is a
  key that is missing or \<open>null\<close>.\<close>

record whisper_segment =
  ws_text :: "string option"
  ws_start :: "real option"
  ws_end :: "real option"
  avg_logprob :: "real option"

record whisper_result =
  wr_text :: "string option"
  wr_segments :: "whisper_segment list option"
  wr_language :: "string option"
  wr_duration :: "real option"

text \<open>A segment of a transcript; an update of a transcript may leave the confidence of a
  segment out.\<close>

record segment =
  seg_text :: string
  seg_start :: real
  seg_end :: real
  seg_confidence :: "real option"

text \<open>\<open>segment.avg_logprob ? Math.exp(segment.avg_logprob) : 0.8\<close>\<close>

definition segment_confidence :: "whisper_segment \<Rightarrow> real" where
  "segment_confidence s =
     (case avg_logprob s of
        None \<Rightarrow> 0.8
      | Some lp \<Rightarrow> if lp \<noteq> 0 then exp lp else 0.8)"

text \<open>The loop of \<open>calculateOverallConfidence\<close>; the accumulator is
  \<open>(totalDuration, weightedConfidence)\<close>.\<close>

fun confidence_loop :: "whisper_segment list \<Rightarrow> real \<times> real \<Rightarrow> real \<times> real" where
  "confidence_loop [] acc = acc"
| "confidence_loop (s # ss) (totalDuration, weightedConfidence) =
     (let duration = num_or (ws_end s) 0 - num_or (ws_start s) 0;
          confidence = segment_confidence s
      in confidence_loop ss
           (totalDuration + duration, weightedConfidence + confidence * duration))"

definition calculateOverallConfidence :: "whisper_segment list \<Rightarrow> real" where
  "calculateOverallConfidence segments =
     (if segments = [] then 0.8
      else case confidence_loop segments (0, 0) of
             (totalDuration, weightedConfidence) \<Rightarrow>
               if totalDuration > 0 then min (weightedConfidence / totalDuration) 1
               else 0.8)"

definition transformSegments :: "whisper_segment list \<Rightarrow> segment list" where
  "transformSegments segments =
     map (\<lambda>s. \<lparr>seg_text = str_or (ws_text s) [],
               seg_start = num_or (ws_start s) 0,
               seg_end = num_or (ws_end s) 0,
               seg_confidence = Some (segment_confidence s)\<rparr>) segments"

text \<open>
  The specification's words for the overall confidence: the average of the per-segment
  confidences of the transcript, each weighted by the segment's end minus its start.
  The average exists when every segment has a confidence and the weights do not sum to
  zero.
\<close>

definition total_duration :: "segment list \<Rightarrow> real" where
  "total_duration segs = (\<Sum>s\<leftarrow>segs. seg_end s - seg_start s)"

definition weighted_confidence :: "segment list \<Rightarrow> real" where
  "weighted_confidence segs =
     (\<Sum>s\<leftarrow>segs. (case seg_confidence s of Some c \<Rightarrow> c | None \<Rightarrow> 0) * (seg_end s - seg_start s))"

definition duration_weighted_average :: "segment list \<Rightarrow> real option" where
  "duration_weighted_average segs =
     (if total_duration segs = 0 \<or> (\<exists>s \<in> set segs. seg_confidence s = None) then None
      else Some (weighted_confidence segs / total_duration segs))"

text \<open>
  What \<open>transcribeAudio\<close> of the service meets outside the program: the configured API
  key, the size of the file at a path (\<open>None\<close> when no file is there), the provider's
  answer and the time the call took.
\<close>

datatype whisper_reply =
    FetchFailed string
  | NotOk nat string "string option"
  | Ok whisper_result

record stt_env =
  stt_apiKey :: "string option"
  stt_fileSize :: "string \<Rightarrow> nat option"
  stt_reply :: whisper_reply
  stt_elapsed :: nat

record transcriptionResult =
  tres_text :: string
  tres_confidence :: real
  tres_segments :: "segment list"
  tres_language :: string
  tres_duration :: real
  tres_processingTime :: nat

definition maxFileSize :: nat where
  "maxFileSize = 25 * 1024 * 1024"

definition supportedFormats :: "string list" where
  "supportedFormats =
     [''flac'', ''m4a'', ''mp3'', ''mp4'', ''mpeg'', ''mpga'', ''oga'', ''ogg'', ''wav'', ''webm'']"

definition getSupportedLanguages :: "string list" where
  "getSupportedLanguages =
     [''af'', ''ar'', ''hy'', ''az'', ''be'', ''bs'', ''bg'', ''ca'', ''zh'', ''hr'', ''cs'',
      ''da'', ''nl'', ''en'', ''et'', ''fi'', ''fr'', ''gl'', ''de'', ''el'', ''he'', ''hi'',
      ''hu'', ''is'', ''id'', ''it'', ''ja'', ''kn'', ''kk'', ''ko'', ''lv'', ''lt'', ''mk'',
      ''ms'', ''mr'', ''mi'', ''ne'', ''no'', ''fa'', ''pl'', ''pt'', ''ro'', ''ru'', ''sr'',
      ''sk'', ''sl'', ''es'', ''sw'', ''sv'', ''tl'', ''ta'', ''th'', ''tr'', ''uk'', ''ur'',
      ''vi'', ''cy'']"

text \<open>\<open>!apiKey || apiKey === 'mock_openai_key'\<close>\<close>

definition apiKey_missing :: "string option \<Rightarrow> bool" where
  "apiKey_missing k = (case k of None \<Rightarrow> True | Some s \<Rightarrow> s = [] \<or> s = ''mock_openai_key'')"

text \<open>\<open>Math.round(stats.size / (1024 * 1024))\<close>, \<open>s.replace('.', '')\<close> and
  \<open>xs.join(', ')\<close>.\<close>

definition round_megabytes :: "nat \<Rightarrow> nat" where
  "round_megabytes bytes = (2 * bytes + 1024 * 1024) div (2 * 1024 * 1024)"

fun remove_first_dot :: "string \<Rightarrow> string" where
  "remove_first_dot [] = []"
| "remove_first_dot (c # cs) = (if c = CHR ''.'' then cs else c # remove_first_dot cs)"

fun join_comma :: "string list \<Rightarrow> string" where
  "join_comma [] = []"
| "join_comma [x] = x"
| "join_comma (x # xs) = x @ '', '' @ join_comma xs"

text \<open>The body of the service's \<open>try\<close> block: \<open>Inl\<close> is the message of the error
  thrown, \<open>Inr\<close> the result returned. \<open>stt_call\<close> is its second half, from the request
  to the provider on.\<close>

definition stt_call :: "stt_env \<Rightarrow> string \<Rightarrow> string + transcriptionResult" where
  "stt_call env language =
     (case stt_reply env of
        FetchFailed msg \<Rightarrow> Inl msg
      | NotOk code statusText errorMessage \<Rightarrow>
          Inl (''OpenAI API Error ('' @ string_of_nat code @ ''): ''
               @ str_or errorMessage statusText)
      | Ok result \<Rightarrow>
          (let segments = (case wr_segments result of None \<Rightarrow> [] | Some ss \<Rightarrow> ss) in
           Inr \<lparr>tres_text = str_or (wr_text result) [],
                tres_confidence = calculateOverallConfidence segments,
                tres_segments = transformSegments segments,
                tres_language = str_or (wr_language result) (str_or (Some language) ''en''),
                tres_duration = num_or (wr_duration result) 0,
                tres_processingTime = stt_elapsed env\<rparr>))"

definition stt_attempt :: "stt_env \<Rightarrow> string \<Rightarrow> string \<Rightarrow> string + transcriptionResult" where
  "stt_attempt env filePath language =
     (if apiKey_missing (stt_apiKey env) then
        Inl ''OpenAI API key not configured. Please set OPENAI_API_KEY in your .env file''
      else (case stt_fileSize env filePath of
        None \<Rightarrow> Inl ''Audio file not found''
      | Some bytes \<Rightarrow>
          (if bytes > maxFileSize then
             Inl (''File size '' @ string_of_nat (round_megabytes bytes)
                  @ ''MB exceeds OpenAI limit of 25MB'')
           else
             (let fileExtension = remove_first_dot (toLowerCase (extname filePath)) in
              if fileExtension \<notin> set supportedFormats then
                Inl (''Unsupported file format: '' @ fileExtension
                     @ ''. Supported formats: '' @ join_comma supportedFormats)
              else stt_call env language))))"

text \<open>The \<open>catch\<close> of the service wraps every failure.\<close>

definition stt_transcribeAudio :: "stt_env \<Rightarrow> string \<Rightarrow> string \<Rightarrow> string + transcriptionResult" where
  "stt_transcribeAudio env filePath language =
     (case stt_attempt env filePath language of
        Inl msg \<Rightarrow> Inl (''Transcription failed: '' @ msg)
      | Inr r \<Rightarrow> Inr r)"

section \<open>Identifiers, models and the document store\<close>

text \<open>
  An \<open>ObjectId\<close> is the 96-bit number that 24 hexadecimal digits denote. A controller
  checks a path parameter against \<open>/^[0-9a-fA-F]{24}$/\<close> and Mongoose casts the string
  to the identifier.
\<close>

type_synonym objectId = nat

definition is_hex :: "char \<Rightarrow> bool" where
  "is_hex c = (c \<in> set ''0123456789abcdefABCDEF'')"

definition valid_id :: "string \<Rightarrow> bool" where
  "valid_id s = (length s = 24 \<and> list_all is_hex s)"

definition hex_value :: "char \<Rightarrow> nat" where
  "hex_value c =
     (let n = of_char c :: nat in
      if 48 \<le> n \<and> n \<le> 57 then n - 48
      else if 97 \<le> n \<and> n \<le> 102 then n - 87
      else n - 55)"

text \<open>The cast is applied to strings that have passed \<open>valid_id\<close> only.\<close>

definition ObjectId :: "string \<Rightarrow> objectId" where
  "ObjectId s = foldl (\<lambda>a c. 16 * a + hex_value c) 0 s"

text \<open>The four models. Field names carry a prefix, since record fields share one name
  space; \<open>createdAt\<close> and \<open>updatedAt\<close> come from \<open>timestamps: true\<close>.\<close>

record audioFile =
  af_id :: objectId
  af_originalName :: string
  af_filename :: string
  af_path :: string
  af_mimetype :: string
  af_size :: nat
  af_duration :: "real option"
  af_uploadedAt :: nat
  af_status :: string
  af_createdAt :: nat
  af_updatedAt :: nat

record transcript =
  tr_id :: objectId
  tr_audioFileId :: objectId
  tr_text :: string
  tr_confidence :: real
  tr_segments :: "segment list"
  tr_language :: string
  tr_processingTime :: nat
  tr_createdAt :: nat
  tr_updatedAt :: nat

text \<open>
  The sections of an analysis and of a coaching plan that the controllers copy from the
  model's reply without reading them are kept as JSON values. The fields of an analysis
  and of a coaching plan hold what the reply held, absent and \<open>null\<close> values included;
  the validators below decide whether such a document can be saved.
\<close>

datatype json = JNull | JBool bool | JNum real | JStr string
  | JArr "json list" | JObj "(string \<times> json) list"

record sentiment_json =
  sj_overall :: "string field"
  sj_score :: "real field"
  sj_confidence :: "real field"

record analysis =
  an_id :: objectId
  an_transcriptId :: objectId
  an_audioFileId :: objectId
  an_sentiment :: "sentiment_json field"
  an_emotions :: "json field"
  an_keyTopics :: "json field"
  an_communicationMetrics :: "json field"
  an_customerSatisfaction :: "json field"
  an_issueResolution :: "json field"
  an_compliance :: "json field"
  an_summary :: "string field"
  an_processingTime :: nat
  an_createdAt :: nat
  an_updatedAt :: nat

record performance_json =
  pj_score :: "real field"
  pj_level :: "string field"

record coachingPlan =
  cp_id :: objectId
  cp_analysisId :: objectId
  cp_audioFileId :: objectId
  cp_agentId :: "string field"
  cp_overallPerformance :: "performance_json field"
  cp_strengths :: "json field"
  cp_improvementAreas :: "json field"
  cp_actionItems :: "json field"
  cp_trainingRecommendations :: "json field"
  cp_followUpPlan :: "json field"
  cp_customNotes :: "json field"
  cp_generatedAt :: nat
  cp_createdAt :: nat
  cp_updatedAt :: nat

text \<open>The store: the four collections in insertion order, and the log of the accesses
  made to them, one entry for each query or command sent to the store.\<close>

datatype collection = AudioFiles | Transcripts | Analyses | CoachingPlans

datatype db_access = ReadOp collection | WriteOp collection

record database =
  audioFiles :: "audioFile list"
  transcripts :: "transcript list"
  analyses :: "analysis list"
  coachingPlans :: "coachingPlan list"
  accesses :: "db_access list"

definition logged :: "db_access \<Rightarrow> database \<Rightarrow> database" where
  "logged a db = db\<lparr>accesses := accesses db @ [a]\<rparr>"

text \<open>What the request does not decide: the clock and the identifier that Mongoose
  generates for a new document.\<close>

record request_env =
  now :: nat
  newId :: objectId

text \<open>\<open>findOneAndUpdate\<close> and \<open>findOneAndDelete\<close> touch the first match only.\<close>

fun update_first :: "('a \<Rightarrow> bool) \<Rightarrow> ('a \<Rightarrow> 'a) \<Rightarrow> 'a list \<Rightarrow> 'a list" where
  "update_first P f [] = []"
| "update_first P f (x # xs) = (if P x then f x # xs else x # update_first P f xs)"

fun delete_first :: "('a \<Rightarrow> bool) \<Rightarrow> 'a list \<Rightarrow> 'a list" where
  "delete_first P [] = []"
| "delete_first P (x # xs) = (if P x then xs else x # delete_first P xs)"

subsection \<open>\<open>AudioFile\<close>\<close>

definition AudioFile_findById :: "objectId \<Rightarrow> database \<Rightarrow> audioFile option \<times> database" where
  "AudioFile_findById i db =
     (find (\<lambda>a. af_id a = i) (audioFiles db), logged (ReadOp AudioFiles) db)"

text \<open>\<open>findByIdAndUpdate\<close>: the result is the document after the update, as
  \<open>updateStatus\<close> asks for with \<open>{new: true}\<close> (the other callers do not read it),
  or \<open>null\<close>. Update validators are off by default, and \<open>timestamps\<close> sets
  \<open>updatedAt\<close>.\<close>

definition AudioFile_findByIdAndUpdate ::
  "objectId \<Rightarrow> (audioFile \<Rightarrow> audioFile) \<Rightarrow> nat \<Rightarrow> database \<Rightarrow> audioFile option \<times> database" where
  "AudioFile_findByIdAndUpdate i upd t db =
     (let f = (\<lambda>a. (upd a)\<lparr>af_updatedAt := t\<rparr>)
      in (map_option f (find (\<lambda>a. af_id a = i) (audioFiles db)),
          logged (WriteOp AudioFiles)
            (db\<lparr>audioFiles := update_first (\<lambda>a. af_id a = i) f (audioFiles db)\<rparr>)))"

definition AudioFile_findByIdAndDelete :: "objectId \<Rightarrow> database \<Rightarrow> audioFile option \<times> database" where
  "AudioFile_findByIdAndDelete i db =
     (find (\<lambda>a. af_id a = i) (audioFiles db),
      logged (WriteOp AudioFiles)
        (db\<lparr>audioFiles := delete_first (\<lambda>a. af_id a = i) (audioFiles db)\<rparr>))"

text \<open>The validators of the audio file schema: four required paths, and the \<open>enum\<close> of
  the MIME type.\<close>

definition audioFile_invalid_paths :: "audioFile \<Rightarrow> string list" where
  "audioFile_invalid_paths a =
     (if af_originalName a = [] then [''originalName''] else [])
     @ (if af_filename a = [] then [''filename''] else [])
     @ (if af_path a = [] then [''path''] else [])
     @ (if af_mimetype a \<in> set [''audio/wav'', ''audio/mpeg'', ''audio/mp3''] then []
        else [''mimetype''])"

definition AudioFile_save :: "audioFile \<Rightarrow> database \<Rightarrow> (string list + unit) \<times> database" where
  "AudioFile_save a db =
     (if audioFile_invalid_paths a \<noteq> [] then (Inl (audioFile_invalid_paths a), db)
      else (Inr (), logged (WriteOp AudioFiles) (db\<lparr>audioFiles := audioFiles db @ [a]\<rparr>)))"

subsection \<open>\<open>Transcript\<close>\<close>

definition Transcript_findById :: "objectId \<Rightarrow> database \<Rightarrow> transcript option \<times> database" where
  "Transcript_findById i db =
     (find (\<lambda>t. tr_id t = i) (transcripts db), logged (ReadOp Transcripts) db)"

text \<open>\<open>Transcript.findOne({ audioFileId })\<close>\<close>

definition Transcript_findOne :: "objectId \<Rightarrow> database \<Rightarrow> transcript option \<times> database" where
  "Transcript_findOne audioFileId db =
     (find (\<lambda>t. tr_audioFileId t = audioFileId) (transcripts db),
      logged (ReadOp Transcripts) db)"

text \<open>
  The validators of the transcript schema: \<open>text\<close> is required (Mongoose's
  \<open>required\<close> refuses the empty string), \<open>confidence\<close> has \<open>min: 0, max: 1\<close>.
  The result lists the paths that fail.
\<close>

definition transcript_invalid_paths :: "transcript \<Rightarrow> string list" where
  "transcript_invalid_paths t =
     (if tr_text t = [] then [''text''] else [])
     @ (if tr_confidence t < 0 \<or> 1 < tr_confidence t then [''confidence''] else [])"

text \<open>\<open>save()\<close> validates the document and inserts it; a document that fails validation
  never reaches the store.\<close>

definition Transcript_save :: "transcript \<Rightarrow> database \<Rightarrow> (string list + unit) \<times> database" where
  "Transcript_save t db =
     (if transcript_invalid_paths t \<noteq> [] then (Inl (transcript_invalid_paths t), db)
      else (Inr (), logged (WriteOp Transcripts) (db\<lparr>transcripts := transcripts db @ [t]\<rparr>)))"

definition Transcript_findByIdAndUpdate ::
  "objectId \<Rightarrow> (transcript \<Rightarrow> transcript) \<Rightarrow> nat \<Rightarrow> database \<Rightarrow> transcript option \<times> database" where
  "Transcript_findByIdAndUpdate i upd t db =
     (let f = (\<lambda>d. (upd d)\<lparr>tr_updatedAt := t\<rparr>)
      in (map_option f (find (\<lambda>d. tr_id d = i) (transcripts db)),
          logged (WriteOp Transcripts)
            (db\<lparr>transcripts := update_first (\<lambda>d. tr_id d = i) f (transcripts db)\<rparr>)))"

definition Transcript_findByIdAndDelete :: "objectId \<Rightarrow> database \<Rightarrow> transcript option \<times> database" where
  "Transcript_findByIdAndDelete i db =
     (find (\<lambda>t. tr_id t = i) (transcripts db),
      logged (WriteOp Transcripts)
        (db\<lparr>transcripts := delete_first (\<lambda>t. tr_id t = i) (transcripts db)\<rparr>))"

subsection \<open>\<open>Analysis\<close>\<close>

definition Analysis_findById :: "objectId \<Rightarrow> database \<Rightarrow> analysis option \<times> database" where
  "Analysis_findById i db =
     (find (\<lambda>a. an_id a = i) (analyses db), logged (ReadOp Analyses) db)"

text \<open>\<open>Analysis.findOne({ transcriptId })\<close>\<close>

definition Analysis_findOne :: "objectId \<Rightarrow> database \<Rightarrow> analysis option \<times> database" where
  "Analysis_findOne transcriptId db =
     (find (\<lambda>a. an_transcriptId a = transcriptId) (analyses db),
      logged (ReadOp Analyses) db)"

text \<open>
  The validators of a path: \<open>required\<close> refuses a missing value, \<open>null\<close> and the
  empty string; \<open>enum\<close>, \<open>min\<close> and \<open>max\<close> look at a value that is there.
\<close>

fun required_str :: "string field \<Rightarrow> bool" where
  "required_str (Val s) = (s \<noteq> [])"
| "required_str _ = False"

fun required_num :: "real field \<Rightarrow> bool" where
  "required_num (Val x) = True"
| "required_num _ = False"

fun enum_ok :: "string list \<Rightarrow> string field \<Rightarrow> bool" where
  "enum_ok vs (Val s) = (s \<in> set vs)"
| "enum_ok vs _ = True"

fun range_ok :: "real \<Rightarrow> real \<Rightarrow> real field \<Rightarrow> bool" where
  "range_ok lo hi (Val x) = (lo \<le> x \<and> x \<le> hi)"
| "range_ok lo hi _ = True"

text \<open>A path below a nested object that is itself missing is missing.\<close>

fun sub_field :: "('a \<Rightarrow> 'b field) \<Rightarrow> 'a field \<Rightarrow> 'b field" where
  "sub_field f (Val x) = f x"
| "sub_field f _ = Undefined"

text \<open>
  The validators of the analysis schema on \<open>sentiment\<close> and \<open>summary\<close>. The
  validators of the other sections (\<open>enum\<close>, \<open>min\<close> and \<open>max\<close> on what the model
  returned there) are the parameter \<open>others\<close>, which gives the paths of those sections
  that fail.
\<close>

definition analysis_invalid_paths :: "(analysis \<Rightarrow> string list) \<Rightarrow> analysis \<Rightarrow> string list" where
  "analysis_invalid_paths others a =
     (let overall = sub_field sj_overall (an_sentiment a);
          score = sub_field sj_score (an_sentiment a);
          confidence = sub_field sj_confidence (an_sentiment a)
      in (if required_str overall \<and> enum_ok [''positive'', ''neutral'', ''negative''] overall
          then [] else [''sentiment.overall''])
       @ (if required_num score \<and> range_ok (-1) 1 score then [] else [''sentiment.score''])
       @ (if range_ok 0 1 confidence then [] else [''sentiment.confidence''])
       @ (if required_str (an_summary a) then [] else [''summary''])
       @ others a)"

definition Analysis_save ::
  "(analysis \<Rightarrow> string list) \<Rightarrow> analysis \<Rightarrow> database \<Rightarrow> (string list + unit) \<times> database" where
  "Analysis_save others a db =
     (if analysis_invalid_paths others a \<noteq> [] then (Inl (analysis_invalid_paths others a), db)
      else (Inr (), logged (WriteOp Analyses) (db\<lparr>analyses := analyses db @ [a]\<rparr>)))"

definition Analysis_findByIdAndDelete :: "objectId \<Rightarrow> database \<Rightarrow> analysis option \<times> database" where
  "Analysis_findByIdAndDelete i db =
     (find (\<lambda>a. an_id a = i) (analyses db),
      logged (WriteOp Analyses)
        (db\<lparr>analyses := delete_first (\<lambda>a. an_id a = i) (analyses db)\<rparr>))"

subsection \<open>\<open>CoachingPlan\<close>\<close>

definition CoachingPlan_findById :: "objectId \<Rightarrow> database \<Rightarrow> coachingPlan option \<times> database" where
  "CoachingPlan_findById i db =
     (find (\<lambda>c. cp_id c = i) (coachingPlans db), logged (ReadOp CoachingPlans) db)"

text \<open>\<open>CoachingPlan.findOne({ analysisId })\<close>\<close>

definition CoachingPlan_findOne :: "objectId \<Rightarrow> database \<Rightarrow> coachingPlan option \<times> database" where
  "CoachingPlan_findOne analysisId db =
     (find (\<lambda>c. cp_analysisId c = analysisId) (coachingPlans db),
      logged (ReadOp CoachingPlans) db)"

text \<open>The validators of the coaching plan schema on \<open>agentId\<close> and
  \<open>overallPerformance\<close>; those of the other sections are again a parameter.\<close>

definition coachingPlan_invalid_paths ::
  "(coachingPlan \<Rightarrow> string list) \<Rightarrow> coachingPlan \<Rightarrow> string list" where
  "coachingPlan_invalid_paths others c =
     (let score = sub_field pj_score (cp_overallPerformance c);
          level = sub_field pj_level (cp_overallPerformance c)
      in (if required_str (cp_agentId c) then [] else [''agentId''])
       @ (if required_num score \<and> range_ok 0 100 score then []
          else [''overallPerformance.score''])
       @ (if required_str level
             \<and> enum_ok [''excellent'', ''good'', ''average'', ''needs_improvement'', ''poor''] level
          then [] else [''overallPerformance.level''])
       @ others c)"

definition CoachingPlan_save ::
  "(coachingPlan \<Rightarrow> string list) \<Rightarrow> coachingPlan \<Rightarrow> database
     \<Rightarrow> (string list + unit) \<times> database" where
  "CoachingPlan_save others c db =
     (if coachingPlan_invalid_paths others c \<noteq> []
      then (Inl (coachingPlan_invalid_paths others c), db)
      else (Inr (), logged (WriteOp CoachingPlans)
                      (db\<lparr>coachingPlans := coachingPlans db @ [c]\<rparr>)))"

definition CoachingPlan_findByIdAndUpdate ::
  "objectId \<Rightarrow> (coachingPlan \<Rightarrow> coachingPlan) \<Rightarrow> nat \<Rightarrow> database
     \<Rightarrow> coachingPlan option \<times> database" where
  "CoachingPlan_findByIdAndUpdate i upd t db =
     (let f = (\<lambda>c. (upd c)\<lparr>cp_updatedAt := t\<rparr>)
      in (map_option f (find (\<lambda>c. cp_id c = i) (coachingPlans db)),
          logged (WriteOp CoachingPlans)
            (db\<lparr>coachingPlans := update_first (\<lambda>c. cp_id c = i) f (coachingPlans db)\<rparr>)))"

definition CoachingPlan_findByIdAndDelete ::
  "objectId \<Rightarrow> database \<Rightarrow> coachingPlan option \<times> database" where
  "CoachingPlan_findByIdAndDelete i db =
     (find (\<lambda>c. cp_id c = i) (coachingPlans db),
      logged (WriteOp CoachingPlans)
        (db\<lparr>coachingPlans := delete_first (\<lambda>c. cp_id c = i) (coachingPlans db)\<rparr>))"

subsection \<open>\<open>populate\<close>\<close>

text \<open>\<open>populate\<close> looks the referenced document up with a query of its own; a
  reference to a deleted document becomes \<open>null\<close>.\<close>

definition populate_audioFile :: "objectId \<Rightarrow> database \<Rightarrow> audioFile option \<times> database" where
  "populate_audioFile i db =
     (find (\<lambda>a. af_id a = i) (audioFiles db), logged (ReadOp AudioFiles) db)"

definition populate_transcript :: "objectId \<Rightarrow> database \<Rightarrow> transcript option \<times> database" where
  "populate_transcript i db =
     (find (\<lambda>t. tr_id t = i) (transcripts db), logged (ReadOp Transcripts) db)"

definition populate_analysis :: "objectId \<Rightarrow> database \<Rightarrow> analysis option \<times> database" where
  "populate_analysis i db =
     (find (\<lambda>a. an_id a = i) (analyses db), logged (ReadOp Analyses) db)"

section \<open>Language-model service (\<open>LLMService\<close>)\<close>

text \<open>
  The parsed reply of the model. The call can throw, \<open>JSON.parse\<close> can throw, the parsed
  value can be \<open>null\<close>, or it is read as an object: the code reads the fields below
  from it, and a value that is no object has none of them. The reply is what the provider
  answers to the prompt built from the arguments of the call.
\<close>

datatype 'a llm_reply = CallFailed string | ParseFailed string | ParsedNull | Parsed 'a

record 'a llm_env =
  llm_apiKey :: "string option"
  llm_reply :: "'a llm_reply"
  llm_elapsed :: nat

record analysis_json =
  aj_sentiment :: "sentiment_json field"
  aj_emotions :: "json field"
  aj_keyTopics :: "json field"
  aj_communicationMetrics :: "json field"
  aj_customerSatisfaction :: "json field"
  aj_issueResolution :: "json field"
  aj_compliance :: "json field"
  aj_summary :: "string field"

record coaching_json =
  cj_agentId :: "string field"
  cj_overallPerformance :: "performance_json field"
  cj_strengths :: "json field"
  cj_improvementAreas :: "json field"
  cj_actionItems :: "json field"
  cj_trainingRecommendations :: "json field"
  cj_followUpPlan :: "json field"
  cj_customNotes :: "json field"

text \<open>The message of the \<open>TypeError\<close> that reading a property of \<open>null\<close> throws.\<close>

definition cannot_read_null :: "string \<Rightarrow> string" where
  "cannot_read_null prop =
     ''Cannot read properties of null (reading '' @ [CHR 0x27] @ prop @ [CHR 0x27] @ '')''"

text \<open>The validation of the analysis reply:
  \<open>!r.sentiment || !r.sentiment.overall || r.sentiment.score === undefined\<close>, then
  \<open>!r.summary\<close>.\<close>

definition analysis_reply_error :: "analysis_json \<Rightarrow> string option" where
  "analysis_reply_error r =
     (if \<not> truthy_obj (aj_sentiment r)
         \<or> \<not> truthy_str (sub_field sj_overall (aj_sentiment r))
         \<or> sub_field sj_score (aj_sentiment r) = Undefined
      then Some ''Invalid analysis response: missing required sentiment fields (overall and score)''
      else if \<not> truthy_str (aj_summary r)
      then Some ''Invalid analysis response: missing required summary field''
      else None)"

definition llm_analyze_attempt :: "analysis_json llm_env \<Rightarrow> string + analysis_json \<times> nat" where
  "llm_analyze_attempt env =
     (if apiKey_missing (llm_apiKey env) then
        Inl ''OpenAI API key not configured. Please set OPENAI_API_KEY in your .env file''
      else (case llm_reply env of
        CallFailed msg \<Rightarrow> Inl msg
      | ParseFailed msg \<Rightarrow> Inl msg
      | ParsedNull \<Rightarrow> Inl (cannot_read_null ''sentiment'')
      | Parsed analysisResult \<Rightarrow>
          (case analysis_reply_error analysisResult of
             Some msg \<Rightarrow> Inl msg
           | None \<Rightarrow> Inr (analysisResult, llm_elapsed env))))"

definition llm_analyzeTranscript ::
  "analysis_json llm_env \<Rightarrow> string \<Rightarrow> string + analysis_json \<times> nat" where
  "llm_analyzeTranscript env transcriptText =
     (case llm_analyze_attempt env of
        Inl msg \<Rightarrow> Inl (''LLM Analysis failed: '' @ msg)
      | Inr r \<Rightarrow> Inr r)"

text \<open>The validation of the coaching reply: \<open>!r.agentId\<close>, then
  \<open>!r.overallPerformance || !r.overallPerformance.score || !r.overallPerformance.level\<close>.\<close>

definition coaching_reply_error :: "coaching_json \<Rightarrow> string option" where
  "coaching_reply_error r =
     (if \<not> truthy_str (cj_agentId r)
      then Some ''Invalid coaching plan response: missing required agentId field''
      else if \<not> truthy_obj (cj_overallPerformance r)
              \<or> \<not> truthy_num (sub_field pj_score (cj_overallPerformance r))
              \<or> \<not> truthy_str (sub_field pj_level (cj_overallPerformance r))
      then Some ''Invalid coaching plan response: missing required overallPerformance fields (score and level)''
      else None)"

definition llm_coaching_attempt :: "coaching_json llm_env \<Rightarrow> string + coaching_json" where
  "llm_coaching_attempt env =
     (if apiKey_missing (llm_apiKey env) then
        Inl ''OpenAI API key not configured. Please set OPENAI_API_KEY in your .env file''
      else (case llm_reply env of
        CallFailed msg \<Rightarrow> Inl msg
      | ParseFailed msg \<Rightarrow> Inl msg
      | ParsedNull \<Rightarrow> Inl (cannot_read_null ''agentId'')
      | Parsed coachingPlan \<Rightarrow>
          (case coaching_reply_error coachingPlan of
             Some msg \<Rightarrow> Inl msg
           | None \<Rightarrow> Inr coachingPlan)))"

definition llm_generateCoachingPlan ::
  "coaching_json llm_env \<Rightarrow> analysis \<Rightarrow> string \<Rightarrow> string + coaching_json" where
  "llm_generateCoachingPlan env analysis agentId =
     (case llm_coaching_attempt env of
        Inl msg \<Rightarrow> Inl (''Coaching plan generation failed: '' @ msg)
      | Inr r \<Rightarrow> Inr r)"

section \<open>Responses\<close>

text \<open>
  The text a failure response carries in \<open>error\<close>: the message of an error thrown, the
  first detail of a Joi validation (named by the key it is about), the message of a
  Mongoose validation error (named by the paths that failed), the message of a Mongoose
  cast error (named by the path whose value cannot be cast), or the message of an error
  of the store (named by the options of the query that the store refuses, of which the
  message is about one).
\<close>

datatype error_text = Message string | JoiMessage string | ValidationMessage "string list"
  | CastMessage string | StoreMessage "string list"

datatype payload =
    NoData
  | ExistingId objectId nat
  | AudioFileData audioFile
  | TranscriptData transcript
  | AnalysisData analysis
  | CoachingPlanData coachingPlan
  | UploadInfo audioFile "nat option"
  | StatusData objectId string nat
  | PopulatedTranscript transcript "audioFile option"
  | PopulatedAnalysis analysis "transcript option" "audioFile option"
  | PopulatedCoachingPlan coachingPlan "analysis option" "audioFile option"
  | AudioFileList "audioFile list"
  | TranscriptList "(transcript \<times> audioFile option) list"
  | AnalysisList "(analysis \<times> transcript option \<times> audioFile option) list"
  | CoachingPlanList "(coachingPlan \<times> analysis option \<times> audioFile option) list"

record pagination =
  pg_current :: int
  pg_total :: int
  pg_limit :: int
  pg_totalItems :: nat
  pg_hasNext :: bool
  pg_hasPrev :: bool

record response =
  res_status :: nat
  res_success :: bool
  res_message :: string
  res_error :: "error_text option"
  res_data :: payload
  res_pagination :: "pagination option"

definition failure :: "nat \<Rightarrow> string \<Rightarrow> error_text option \<Rightarrow> response" where
  "failure code msg err =
     \<lparr>res_status = code, res_success = False, res_message = msg, res_error = err,
      res_data = NoData, res_pagination = None\<rparr>"

definition success :: "nat \<Rightarrow> string \<Rightarrow> payload \<Rightarrow> response" where
  "success code msg d =
     \<lparr>res_status = code, res_success = True, res_message = msg, res_error = None,
      res_data = d, res_pagination = None\<rparr>"

section \<open>Transcript controller\<close>

text \<open>
  \<open>POST /api/transcript/:audioFileId\<close>. The body's \<open>language\<close> is \<open>None\<close> when
  the key is missing. The inner \<open>catch\<close> marks the audio file as failed and rethrows to
  the outer one, which answers 500 with the error's message.
\<close>

definition transcription_failed ::
  "request_env \<Rightarrow> objectId \<Rightarrow> error_text \<Rightarrow> database \<Rightarrow> response \<times> database" where
  "transcription_failed renv i err db =
     (let (u, db') = AudioFile_findByIdAndUpdate i (\<lambda>a. a\<lparr>af_status := ''failed''\<rparr>) (now renv) db
      in (failure 500 ''Transcription failed'' (Some err), db'))"

text \<open>The steps of \<open>transcribeAudio\<close> after both checks have passed, from the update
  of the status to \<open>processing\<close> on.\<close>

definition transcribe_proceed ::
  "request_env \<Rightarrow> stt_env \<Rightarrow> objectId \<Rightarrow> audioFile \<Rightarrow> string \<Rightarrow> database
     \<Rightarrow> response \<times> database" where
  "transcribe_proceed renv env i audioFile language db2 =
     (let (u, db3) = AudioFile_findByIdAndUpdate i
                       (\<lambda>a. a\<lparr>af_status := ''processing''\<rparr>) (now renv) db2
      in case stt_transcribeAudio env (af_path audioFile) language of
        Inl msg \<Rightarrow> transcription_failed renv i (Message msg) db3
      | Inr transcriptionResult \<Rightarrow>
          (let transcript =
                 \<lparr>tr_id = newId renv, tr_audioFileId = i,
                  tr_text = tres_text transcriptionResult,
                  tr_confidence = tres_confidence transcriptionResult,
                  tr_segments = tres_segments transcriptionResult,
                  tr_language = tres_language transcriptionResult,
                  tr_processingTime = tres_processingTime transcriptionResult,
                  tr_createdAt = now renv, tr_updatedAt = now renv\<rparr>;
               (saved, db4) = Transcript_save transcript db3
           in case saved of
             Inl paths \<Rightarrow> transcription_failed renv i (ValidationMessage paths) db4
           | Inr _ \<Rightarrow>
               (let (u', db5) = AudioFile_findByIdAndUpdate i
                      (\<lambda>a. a\<lparr>af_duration := Some (tres_duration transcriptionResult),
                              af_status := ''completed''\<rparr>) (now renv) db4
                in (success 201 ''Audio file transcribed successfully''
                      (TranscriptData transcript), db5))))"

definition transcribeAudio ::
  "request_env \<Rightarrow> stt_env \<Rightarrow> string \<Rightarrow> string option \<Rightarrow> database \<Rightarrow> response \<times> database" where
  "transcribeAudio renv env audioFileId body_language db =
     (let language = (case body_language of None \<Rightarrow> ''en'' | Some l \<Rightarrow> l) in
      if language \<notin> set getSupportedLanguages then
        (failure 400 ''Validation error'' (Some (JoiMessage ''language'')), db)
      else if \<not> valid_id audioFileId then
        (failure 400 ''Invalid audio file ID format'' None, db)
      else
        (let i = ObjectId audioFileId;
             (found, db1) = AudioFile_findById i db
         in case found of
           None \<Rightarrow> (failure 404 ''Audio file not found'' None, db1)
         | Some audioFile \<Rightarrow>
             (let (existingTranscript, db2) = Transcript_findOne i db1
              in case existingTranscript of
                Some existing \<Rightarrow>
                  (\<lparr>res_status = 409, res_success = False,
                    res_message = ''Transcript already exists for this audio file'',
                    res_error = None,
                    res_data = ExistingId (tr_id existing) (tr_createdAt existing),
                    res_pagination = None\<rparr>, db2)
              | None \<Rightarrow> transcribe_proceed renv env i audioFile language db2)))"

section \<open>Analysis controller\<close>

text \<open>The schema's default for \<open>sentiment.confidence\<close> fills a missing value.\<close>

definition with_default_confidence :: "sentiment_json field \<Rightarrow> sentiment_json field" where
  "with_default_confidence s =
     (case s of
        Val v \<Rightarrow> Val (if sj_confidence v = Undefined then v\<lparr>sj_confidence := Val 0\<rparr> else v)
      | other \<Rightarrow> other)"

text \<open>The steps of \<open>analyzeTranscript\<close> after both checks have passed.
  \<open>populated\<close> is the audio file that \<open>populate('audioFileId')\<close> put into the
  transcript.\<close>

definition analyze_proceed ::
  "(analysis \<Rightarrow> string list) \<Rightarrow> request_env \<Rightarrow> analysis_json llm_env \<Rightarrow> objectId
     \<Rightarrow> transcript \<Rightarrow> audioFile option \<Rightarrow> database \<Rightarrow> response \<times> database" where
  "analyze_proceed others renv env i transcript populated db =
     (case llm_analyzeTranscript env (tr_text transcript) of
        Inl msg \<Rightarrow> (failure 500 ''Analysis failed'' (Some (Message msg)), db)
      | Inr (analysisResult, processingTime) \<Rightarrow>
          (case populated of
             None \<Rightarrow>
               (failure 500 ''Analysis failed'' (Some (Message (cannot_read_null ''_id''))), db)
           | Some audioFile \<Rightarrow>
               (let analysis =
                      \<lparr>an_id = newId renv, an_transcriptId = i,
                       an_audioFileId = af_id audioFile,
                       an_sentiment = with_default_confidence (aj_sentiment analysisResult),
                       an_emotions = aj_emotions analysisResult,
                       an_keyTopics = aj_keyTopics analysisResult,
                       an_communicationMetrics = aj_communicationMetrics analysisResult,
                       an_customerSatisfaction = aj_customerSatisfaction analysisResult,
                       an_issueResolution = aj_issueResolution analysisResult,
                       an_compliance = aj_compliance analysisResult,
                       an_summary = aj_summary analysisResult,
                       an_processingTime = processingTime,
                       an_createdAt = now renv, an_updatedAt = now renv\<rparr>;
                    (saved, db') = Analysis_save others analysis db
                in case saved of
                  Inl paths \<Rightarrow>
                    (failure 500 ''Analysis failed'' (Some (ValidationMessage paths)), db')
                | Inr _ \<Rightarrow>
                    (success 201 ''Transcript analyzed successfully'' (AnalysisData analysis),
                     db'))))"

text \<open>\<open>POST /api/analysis/:transcriptId\<close>\<close>

definition analyzeTranscript ::
  "(analysis \<Rightarrow> string list) \<Rightarrow> request_env \<Rightarrow> analysis_json llm_env \<Rightarrow> string
     \<Rightarrow> database \<Rightarrow> response \<times> database" where
  "analyzeTranscript others renv env transcriptId db =
     (if \<not> valid_id transcriptId then
        (failure 400 ''Invalid transcript ID format'' None, db)
      else
        (let i = ObjectId transcriptId;
             (found, db1) = Transcript_findById i db
         in case found of
           None \<Rightarrow> (failure 404 ''Transcript not found'' None, db1)
         | Some transcript \<Rightarrow>
             (let (populated, db2) = populate_audioFile (tr_audioFileId transcript) db1;
                  (existingAnalysis, db3) = Analysis_findOne i db2
              in case existingAnalysis of
                Some existing \<Rightarrow>
                  (\<lparr>res_status = 409, res_success = False,
                    res_message = ''Analysis already exists for this transcript'',
                    res_error = None,
                    res_data = ExistingId (an_id existing) (an_createdAt existing),
                    res_pagination = None\<rparr>, db3)
              | None \<Rightarrow> analyze_proceed others renv env i transcript populated db3)))"

section \<open>Coaching controller\<close>

text \<open>The steps of \<open>generateCoachingPlan\<close> after both checks have passed.\<close>

definition coaching_proceed ::
  "(coachingPlan \<Rightarrow> string list) \<Rightarrow> request_env \<Rightarrow> coaching_json llm_env \<Rightarrow> objectId
     \<Rightarrow> analysis \<Rightarrow> audioFile option \<Rightarrow> string \<Rightarrow> database \<Rightarrow> response \<times> database" where
  "coaching_proceed others renv env i analysis populated agentId db =
     (case llm_generateCoachingPlan env analysis agentId of
        Inl msg \<Rightarrow>
          (failure 500 ''Coaching plan generation failed'' (Some (Message msg)), db)
      | Inr coachingResult \<Rightarrow>
          (case populated of
             None \<Rightarrow>
               (failure 500 ''Coaching plan generation failed''
                  (Some (Message (cannot_read_null ''_id''))), db)
           | Some audioFile \<Rightarrow>
               (let coachingPlan =
                      \<lparr>cp_id = newId renv, cp_analysisId = i,
                       cp_audioFileId = af_id audioFile,
                       cp_agentId = cj_agentId coachingResult,
                       cp_overallPerformance = cj_overallPerformance coachingResult,
                       cp_strengths = cj_strengths coachingResult,
                       cp_improvementAreas = cj_improvementAreas coachingResult,
                       cp_actionItems = cj_actionItems coachingResult,
                       cp_trainingRecommendations = cj_trainingRecommendations coachingResult,
                       cp_followUpPlan = cj_followUpPlan coachingResult,
                       cp_customNotes = cj_customNotes coachingResult,
                       cp_generatedAt = now renv,
                       cp_createdAt = now renv, cp_updatedAt = now renv\<rparr>;
                    (saved, db') = CoachingPlan_save others coachingPlan db
                in case saved of
                  Inl paths \<Rightarrow>
                    (failure 500 ''Coaching plan generation failed''
                       (Some (ValidationMessage paths)), db')
                | Inr _ \<Rightarrow>
                    (success 201 ''Coaching plan generated successfully''
                       (CoachingPlanData coachingPlan), db'))))"

text \<open>\<open>POST /api/coaching/:analysisId\<close>. The body's \<open>agentId\<close> is \<open>None\<close> when the
  key is missing; Joi wants a string of at least one character.\<close>

definition generateCoachingPlan ::
  "(coachingPlan \<Rightarrow> string list) \<Rightarrow> request_env \<Rightarrow> coaching_json llm_env \<Rightarrow> string
     \<Rightarrow> string option \<Rightarrow> database \<Rightarrow> response \<times> database" where
  "generateCoachingPlan others renv env analysisId body_agentId db =
     (let agentId = (case body_agentId of None \<Rightarrow> ''agent_001'' | Some a \<Rightarrow> a) in
      if agentId = [] then
        (failure 400 ''Validation error'' (Some (JoiMessage ''agentId'')), db)
      else if \<not> valid_id analysisId then
        (failure 400 ''Invalid analysis ID format'' None, db)
      else
        (let i = ObjectId analysisId;
             (found, db1) = Analysis_findById i db
         in case found of
           None \<Rightarrow> (failure 404 ''Analysis not found'' None, db1)
         | Some analysis \<Rightarrow>
             (let (populatedTranscript, db2) = populate_transcript (an_transcriptId analysis) db1;
                  (populated, db3) = populate_audioFile (an_audioFileId analysis) db2;
                  (existingPlan, db4) = CoachingPlan_findOne i db3
              in case existingPlan of
                Some existing \<Rightarrow>
                  (\<lparr>res_status = 409, res_success = False,
                    res_message = ''Coaching plan already exists for this analysis'',
                    res_error = None,
                    res_data = ExistingId (cp_id existing) (cp_createdAt existing),
                    res_pagination = None\<rparr>, db4)
              | None \<Rightarrow> coaching_proceed others renv env i analysis populated agentId db4)))"

section \<open>Upload service and controller\<close>

text \<open>The file part of a multipart request, as Multer hands it to the filter, and the
  file as Multer has stored it. The bytes on disk are outside the model.\<close>

record upload_file =
  uf_originalname :: string
  uf_mimetype :: string
  uf_size :: nat

record stored_file =
  sf_originalname :: string
  sf_filename :: string
  sf_path :: string
  sf_mimetype :: string
  sf_size :: nat

record upload_env =
  up_maxFileSize :: string
  up_uploadPath :: string
  up_uuid :: string

datatype upload_error_code = INVALID_FILE_TYPE | INVALID_FILE_EXTENSION | LIMIT_FILE_SIZE

definition allowedTypes :: "string list" where
  "allowedTypes = [''audio/wav'', ''audio/mpeg'', ''audio/mp3'']"

definition allowedExtensions :: "string list" where
  "allowedExtensions = [''.wav'', ''.mp3'', ''.mpeg'', ''.mp4'', ''.flac'']"

text \<open>\<open>fileFilter\<close>: \<open>None\<close> is \<open>cb(null, true)\<close>, otherwise the code and the message
  of the error passed to the callback.\<close>

definition fileFilter :: "upload_file \<Rightarrow> (upload_error_code \<times> string) option" where
  "fileFilter file =
     (if uf_mimetype file \<notin> set allowedTypes then
        Some (INVALID_FILE_TYPE,
              ''Invalid file type. Allowed types: '' @ join_comma allowedTypes)
      else
        (let fileExtension = toLowerCase (extname (uf_originalname file)) in
         if fileExtension \<notin> set allowedExtensions then
           Some (INVALID_FILE_EXTENSION,
                 ''Invalid file extension. Allowed extensions: ''
                 @ join_comma allowedExtensions)
         else None))"

text \<open>\<open>parseFileSize\<close>: \<open>/^(\d+)([A-Z]{1,2})$/\<close>, then the number times its unit
  (an unknown unit counts as megabytes). The product is a natural number here; it is the
  number that JavaScript computes as long as it does not exceed \<open>2 ^ 53\<close>, the units
  being powers of two.\<close>

definition is_digit :: "char \<Rightarrow> bool" where
  "is_digit c = (c \<in> set ''0123456789'')"

definition is_upper :: "char \<Rightarrow> bool" where
  "is_upper c = (c \<in> set ''ABCDEFGHIJKLMNOPQRSTUVWXYZ'')"

definition digits_value :: "string \<Rightarrow> nat" where
  "digits_value ds = foldl (\<lambda>a c. 10 * a + (of_char c - 48)) 0 ds"

definition unit_bytes :: "string \<Rightarrow> nat" where
  "unit_bytes u =
     (if u = ''B'' then 1
      else if u = ''KB'' then 1024
      else if u = ''GB'' then 1024 * 1024 * 1024
      else 1024 * 1024)"

definition parseFileSize :: "string \<Rightarrow> nat" where
  "parseFileSize sizeString =
     (let ds = takeWhile is_digit sizeString; u = dropWhile is_digit sizeString in
      if ds \<noteq> [] \<and> (length u = 1 \<or> length u = 2) \<and> list_all is_upper u
      then digits_value ds * unit_bytes u
      else 50 * 1024 * 1024)"

text \<open>
  Multer's \<open>upload.single('audioFile')\<close> with the options of the service: no file part
  leaves \<open>req.file\<close> undefined; a file is filtered and then stored under
  \<open>uuid + extname(originalname)\<close> in the upload directory. The parser counts the bytes
  of the file as they arrive and stops the file with \<open>LIMIT_FILE_SIZE\<close> as soon as the
  count reaches \<open>limits.fileSize\<close>: a file of exactly that many bytes is refused as
  well as a larger one, and an empty file, of which no byte arrives, is not.

  The path of the stored file is \<open>path.join(destination, filename)\<close>, which
  normalises the directory; \<open>up_uploadPath\<close> is the upload directory in that form
  (\<open>uploads\<close> for the \<open>./uploads\<close> of the configuration), so that the join is the
  directory, a separator and the file name.
\<close>

definition upload_middleware ::
  "upload_env \<Rightarrow> upload_file option \<Rightarrow> (upload_error_code \<times> string) + stored_file option" where
  "upload_middleware env part =
     (case part of
        None \<Rightarrow> Inr None
      | Some file \<Rightarrow>
          (case fileFilter file of
             Some err \<Rightarrow> Inl err
           | None \<Rightarrow>
               (if 0 < uf_size file \<and> parseFileSize (up_maxFileSize env) \<le> uf_size file then
                  Inl (LIMIT_FILE_SIZE, ''File too large'')
                else
                  (let filename = up_uuid env @ extname (uf_originalname file) in
                   Inr (Some \<lparr>sf_originalname = uf_originalname file,
                              sf_filename = filename,
                              sf_path = up_uploadPath env @ ''/'' @ filename,
                              sf_mimetype = uf_mimetype file,
                              sf_size = uf_size file\<rparr>)))))"

text \<open>The global error handler, on the errors of the upload middleware.\<close>

definition upload_error_response :: "upload_error_code \<times> string \<Rightarrow> response" where
  "upload_error_response err =
     (case fst err of
        LIMIT_FILE_SIZE \<Rightarrow>
          failure 413 ''File too large''
            (Some (Message ''The uploaded file exceeds the maximum allowed size''))
      | _ \<Rightarrow> failure 400 ''Invalid file type'' (Some (Message (snd err))))"

text \<open>\<open>uploadAudio\<close>: \<open>processUploadedFile\<close> throws without a file; the \<open>catch\<close>
  answers 400.\<close>

definition uploadAudio ::
  "request_env \<Rightarrow> stored_file option \<Rightarrow> database \<Rightarrow> response \<times> database" where
  "uploadAudio renv file db =
     (case file of
        None \<Rightarrow> (failure 400 ''Upload failed'' (Some (Message ''No file uploaded'')), db)
      | Some fileInfo \<Rightarrow>
          (let audioFile =
                 \<lparr>af_id = newId renv,
                  af_originalName = sf_originalname fileInfo,
                  af_filename = sf_filename fileInfo,
                  af_path = sf_path fileInfo,
                  af_mimetype = sf_mimetype fileInfo,
                  af_size = sf_size fileInfo,
                  af_duration = None,
                  af_uploadedAt = now renv,
                  af_status = ''uploaded'',
                  af_createdAt = now renv, af_updatedAt = now renv\<rparr>;
               (saved, db') = AudioFile_save audioFile db
           in case saved of
             Inl paths \<Rightarrow> (failure 400 ''Upload failed'' (Some (ValidationMessage paths)), db')
           | Inr _ \<Rightarrow>
               (success 201 ''Audio file uploaded successfully'' (AudioFileData audioFile),
                db')))"

text \<open>\<open>POST /api/upload\<close>: the middleware, then the controller.\<close>

definition post_upload ::
  "upload_env \<Rightarrow> request_env \<Rightarrow> upload_file option \<Rightarrow> database \<Rightarrow> response \<times> database" where
  "post_upload env renv part db =
     (case upload_middleware env part of
        Inl err \<Rightarrow> (upload_error_response err, db)
      | Inr file \<Rightarrow> uploadAudio renv file db)"

text \<open>\<open>GET /api/upload/:id\<close>; \<open>fs\<close> gives the size of the file at a path, if there is
  one.\<close>

definition getUploadInfo ::
  "(string \<Rightarrow> nat option) \<Rightarrow> string \<Rightarrow> database \<Rightarrow> response \<times> database" where
  "getUploadInfo fs ident db =
     (if \<not> valid_id ident then (failure 400 ''Invalid file ID format'' None, db)
      else
        (let (found, db1) = AudioFile_findById (ObjectId ident) db
         in case found of
           None \<Rightarrow> (failure 404 ''Audio file not found'' None, db1)
         | Some audioFile \<Rightarrow>
             (success 200 [] (UploadInfo audioFile (fs (af_path audioFile))), db1)))"

text \<open>\<open>DELETE /api/upload/:id\<close>\<close>

definition deleteUpload :: "string \<Rightarrow> database \<Rightarrow> response \<times> database" where
  "deleteUpload ident db =
     (if \<not> valid_id ident then (failure 400 ''Invalid file ID format'' None, db)
      else
        (let (found, db1) = AudioFile_findById (ObjectId ident) db
         in case found of
           None \<Rightarrow> (failure 404 ''Audio file not found'' None, db1)
         | Some audioFile \<Rightarrow>
             (let (deleted, db2) = AudioFile_findByIdAndDelete (ObjectId ident) db1
              in (success 200 ''Audio file deleted successfully'' NoData, db2))))"

text \<open>\<open>PATCH /api/upload/:id/status\<close>\<close>

definition updateStatus ::
  "request_env \<Rightarrow> string \<Rightarrow> string option \<Rightarrow> database \<Rightarrow> response \<times> database" where
  "updateStatus renv ident body_status db =
     (case body_status of
        None \<Rightarrow> (failure 400 ''Validation error'' (Some (JoiMessage ''status'')), db)
      | Some st \<Rightarrow>
          (if st \<notin> set [''uploaded'', ''processing'', ''completed'', ''failed''] then
             (failure 400 ''Validation error'' (Some (JoiMessage ''status'')), db)
           else if \<not> valid_id ident then
             (failure 400 ''Invalid file ID format'' None, db)
           else
             (let (updated, db1) = AudioFile_findByIdAndUpdate (ObjectId ident)
                                     (\<lambda>a. a\<lparr>af_status := st\<rparr>) (now renv) db
              in case updated of
                None \<Rightarrow> (failure 404 ''Audio file not found'' None, db1)
              | Some audioFile \<Rightarrow>
                  (success 200 ''Status updated successfully''
                     (StatusData (af_id audioFile) (af_status audioFile)
                        (af_updatedAt audioFile)), db1))))"

section \<open>Reading, updating and deleting by identifier\<close>

subsection \<open>Transcripts\<close>

text \<open>\<open>GET /api/transcript/:id\<close> and \<open>GET /api/transcript/audio/:audioFileId\<close>;
  a document that was found is populated with its audio file.\<close>

definition populated_transcript ::
  "transcript option \<Rightarrow> database \<Rightarrow> (transcript \<times> audioFile option) option \<times> database" where
  "populated_transcript found db =
     (case found of
        None \<Rightarrow> (None, db)
      | Some t \<Rightarrow> (let (a, db') = populate_audioFile (tr_audioFileId t) db
                   in (Some (t, a), db')))"

definition getTranscript :: "string \<Rightarrow> database \<Rightarrow> response \<times> database" where
  "getTranscript ident db =
     (if \<not> valid_id ident then (failure 400 ''Invalid transcript ID format'' None, db)
      else
        (let (found, db1) = Transcript_findById (ObjectId ident) db;
             (transcript, db2) = populated_transcript found db1
         in case transcript of
           None \<Rightarrow> (failure 404 ''Transcript not found'' None, db2)
         | Some (t, a) \<Rightarrow> (success 200 [] (PopulatedTranscript t a), db2)))"

definition getTranscriptByAudioFile :: "string \<Rightarrow> database \<Rightarrow> response \<times> database" where
  "getTranscriptByAudioFile audioFileId db =
     (if \<not> valid_id audioFileId then (failure 400 ''Invalid audio file ID format'' None, db)
      else
        (let (found, db1) = Transcript_findOne (ObjectId audioFileId) db;
             (transcript, db2) = populated_transcript found db1
         in case transcript of
           None \<Rightarrow> (failure 404 ''Transcript not found for this audio file'' None, db2)
         | Some (t, a) \<Rightarrow> (success 200 [] (PopulatedTranscript t a), db2)))"

text \<open>
  \<open>PUT /api/transcript/:id\<close>. The Joi schema wants a non-empty \<open>text\<close> and, for each
  segment, a non-empty text, a start and an end that are not negative, and a confidence
  between 0 and 1 if there is one; the result is the key of the first detail.
\<close>

record transcript_update =
  tu_text :: "string option"
  tu_segments :: "segment list option"

definition segment_acceptable :: "segment \<Rightarrow> bool" where
  "segment_acceptable g =
     (seg_text g \<noteq> [] \<and> 0 \<le> seg_start g \<and> 0 \<le> seg_end g
      \<and> (case seg_confidence g of None \<Rightarrow> True | Some c \<Rightarrow> 0 \<le> c \<and> c \<le> 1))"

definition transcript_update_error :: "transcript_update \<Rightarrow> string option" where
  "transcript_update_error body =
     (if tu_text body = None \<or> tu_text body = Some [] then Some ''text''
      else (case tu_segments body of
              None \<Rightarrow> None
            | Some segs \<Rightarrow> if list_all segment_acceptable segs then None else Some ''segments''))"

definition updateTranscript ::
  "request_env \<Rightarrow> string \<Rightarrow> transcript_update \<Rightarrow> database \<Rightarrow> response \<times> database" where
  "updateTranscript renv ident body db =
     (case transcript_update_error body of
        Some k \<Rightarrow> (failure 400 ''Validation error'' (Some (JoiMessage k)), db)
      | None \<Rightarrow>
          (if \<not> valid_id ident then (failure 400 ''Invalid transcript ID format'' None, db)
           else
             (let upd = (\<lambda>t. (case tu_segments body of
                                None \<Rightarrow> t\<lparr>tr_text := (case tu_text body of Some x \<Rightarrow> x | None \<Rightarrow> [])\<rparr>
                              | Some segs \<Rightarrow>
                                  t\<lparr>tr_text := (case tu_text body of Some x \<Rightarrow> x | None \<Rightarrow> []),
                                    tr_segments := segs\<rparr>));
                  (updated, db1) = Transcript_findByIdAndUpdate (ObjectId ident) upd (now renv) db;
                  (transcript, db2) = populated_transcript updated db1
              in case transcript of
                None \<Rightarrow> (failure 404 ''Transcript not found'' None, db2)
              | Some (t, a) \<Rightarrow>
                  (success 200 ''Transcript updated successfully'' (PopulatedTranscript t a),
                   db2))))"

text \<open>\<open>DELETE /api/transcript/:id\<close>\<close>

definition deleteTranscript :: "string \<Rightarrow> database \<Rightarrow> response \<times> database" where
  "deleteTranscript ident db =
     (if \<not> valid_id ident then (failure 400 ''Invalid transcript ID format'' None, db)
      else
        (let (deleted, db1) = Transcript_findByIdAndDelete (ObjectId ident) db
         in case deleted of
           None \<Rightarrow> (failure 404 ''Transcript not found'' None, db1)
         | Some t \<Rightarrow> (success 200 ''Transcript deleted successfully'' NoData, db1)))"

subsection \<open>Analyses\<close>

definition populated_analysis ::
  "analysis option \<Rightarrow> database
     \<Rightarrow> (analysis \<times> transcript option \<times> audioFile option) option \<times> database" where
  "populated_analysis found db =
     (case found of
        None \<Rightarrow> (None, db)
      | Some a \<Rightarrow> (let (t, db1) = populate_transcript (an_transcriptId a) db;
                       (f, db2) = populate_audioFile (an_audioFileId a) db1
                   in (Some (a, t, f), db2)))"

text \<open>\<open>GET /api/analysis/:id\<close> and \<open>GET /api/analysis/transcript/:transcriptId\<close>\<close>

definition getAnalysis :: "string \<Rightarrow> database \<Rightarrow> response \<times> database" where
  "getAnalysis ident db =
     (if \<not> valid_id ident then (failure 400 ''Invalid analysis ID format'' None, db)
      else
        (let (found, db1) = Analysis_findById (ObjectId ident) db;
             (analysis, db2) = populated_analysis found db1
         in case analysis of
           None \<Rightarrow> (failure 404 ''Analysis not found'' None, db2)
         | Some (a, t, f) \<Rightarrow> (success 200 [] (PopulatedAnalysis a t f), db2)))"

definition getAnalysisByTranscript :: "string \<Rightarrow> database \<Rightarrow> response \<times> database" where
  "getAnalysisByTranscript transcriptId db =
     (if \<not> valid_id transcriptId then (failure 400 ''Invalid transcript ID format'' None, db)
      else
        (let (found, db1) = Analysis_findOne (ObjectId transcriptId) db;
             (analysis, db2) = populated_analysis found db1
         in case analysis of
           None \<Rightarrow> (failure 404 ''Analysis not found for this transcript'' None, db2)
         | Some (a, t, f) \<Rightarrow> (success 200 [] (PopulatedAnalysis a t f), db2)))"

text \<open>\<open>DELETE /api/analysis/:id\<close>\<close>

definition deleteAnalysis :: "string \<Rightarrow> database \<Rightarrow> response \<times> database" where
  "deleteAnalysis ident db =
     (if \<not> valid_id ident then (failure 400 ''Invalid analysis ID format'' None, db)
      else
        (let (deleted, db1) = Analysis_findByIdAndDelete (ObjectId ident) db
         in case deleted of
           None \<Rightarrow> (failure 404 ''Analysis not found'' None, db1)
         | Some a \<Rightarrow> (success 200 ''Analysis deleted successfully'' NoData, db1)))"

subsection \<open>Coaching plans\<close>

definition populated_plan ::
  "coachingPlan option \<Rightarrow> database
     \<Rightarrow> (coachingPlan \<times> analysis option \<times> audioFile option) option \<times> database" where
  "populated_plan found db =
     (case found of
        None \<Rightarrow> (None, db)
      | Some c \<Rightarrow> (let (a, db1) = populate_analysis (cp_analysisId c) db;
                       (f, db2) = populate_audioFile (cp_audioFileId c) db1
                   in (Some (c, a, f), db2)))"

text \<open>\<open>GET /api/coaching/:id\<close> and \<open>GET /api/coaching/analysis/:analysisId\<close>\<close>

definition getCoachingPlan :: "string \<Rightarrow> database \<Rightarrow> response \<times> database" where
  "getCoachingPlan ident db =
     (if \<not> valid_id ident then (failure 400 ''Invalid coaching plan ID format'' None, db)
      else
        (let (found, db1) = CoachingPlan_findById (ObjectId ident) db;
             (plan, db2) = populated_plan found db1
         in case plan of
           None \<Rightarrow> (failure 404 ''Coaching plan not found'' None, db2)
         | Some (c, a, f) \<Rightarrow> (success 200 [] (PopulatedCoachingPlan c a f), db2)))"

definition getCoachingPlanByAnalysis :: "string \<Rightarrow> database \<Rightarrow> response \<times> database" where
  "getCoachingPlanByAnalysis analysisId db =
     (if \<not> valid_id analysisId then (failure 400 ''Invalid analysis ID format'' None, db)
      else
        (let (found, db1) = CoachingPlan_findOne (ObjectId analysisId) db;
             (plan, db2) = populated_plan found db1
         in case plan of
           None \<Rightarrow> (failure 404 ''Coaching plan not found for this analysis'' None, db2)
         | Some (c, a, f) \<Rightarrow> (success 200 [] (PopulatedCoachingPlan c a f), db2)))"

text \<open>
  \<open>PUT /api/coaching/:id\<close>. The body may hold \<open>customNotes\<close>, \<open>followUpPlan\<close> and
  \<open>actionItems\<close>. What Joi says about the body against the nested schema of the
  controller is the parameter \<open>joi\<close>: the key of the first detail, if there is one.
\<close>

record coaching_update =
  cu_customNotes :: "json option"
  cu_followUpPlan :: "json option"
  cu_actionItems :: "json option"

definition apply_coaching_update :: "coaching_update \<Rightarrow> coachingPlan \<Rightarrow> coachingPlan" where
  "apply_coaching_update body c =
     (let c1 = (case cu_customNotes body of None \<Rightarrow> c | Some v \<Rightarrow> c\<lparr>cp_customNotes := Val v\<rparr>);
          c2 = (case cu_followUpPlan body of None \<Rightarrow> c1 | Some v \<Rightarrow> c1\<lparr>cp_followUpPlan := Val v\<rparr>)
      in (case cu_actionItems body of None \<Rightarrow> c2 | Some v \<Rightarrow> c2\<lparr>cp_actionItems := Val v\<rparr>))"

definition updateCoachingPlan ::
  "(coaching_update \<Rightarrow> string option) \<Rightarrow> request_env \<Rightarrow> string \<Rightarrow> coaching_update
     \<Rightarrow> database \<Rightarrow> response \<times> database" where
  "updateCoachingPlan joi renv ident updateData db =
     (case joi updateData of
        Some k \<Rightarrow> (failure 400 ''Validation error'' (Some (JoiMessage k)), db)
      | None \<Rightarrow>
          (if \<not> valid_id ident then
             (failure 400 ''Invalid coaching plan ID format'' None, db)
           else
             (let (updated, db1) = CoachingPlan_findByIdAndUpdate (ObjectId ident)
                                     (apply_coaching_update updateData) (now renv) db;
                  (plan, db2) = populated_plan updated db1
              in case plan of
                None \<Rightarrow> (failure 404 ''Coaching plan not found'' None, db2)
              | Some (c, a, f) \<Rightarrow>
                  (success 200 ''Coaching plan updated successfully''
                     (PopulatedCoachingPlan c a f), db2))))"

text \<open>\<open>DELETE /api/coaching/:id\<close>\<close>

definition deleteCoachingPlan :: "string \<Rightarrow> database \<Rightarrow> response \<times> database" where
  "deleteCoachingPlan ident db =
     (if \<not> valid_id ident then (failure 400 ''Invalid coaching plan ID format'' None, db)
      else
        (let (deleted, db1) = CoachingPlan_findByIdAndDelete (ObjectId ident) db
         in case deleted of
           None \<Rightarrow> (failure 404 ''Coaching plan not found'' None, db1)
         | Some c \<Rightarrow> (success 200 ''Coaching plan deleted successfully'' NoData, db1)))"

section \<open>Routes with an identifier in the path\<close>

text \<open>
  The requests that the four routers send to a handler with an identifier of a document
  in the path, each with the part of the body that the handler reads, and what lies
  outside the program when one of them is handled.
\<close>

datatype id_request =
    GetUploadInfo string
  | DeleteUpload string
  | UpdateStatus string "string option"
  | TranscribeAudio string "string option"
  | GetTranscript string
  | GetTranscriptByAudioFile string
  | UpdateTranscript string transcript_update
  | DeleteTranscript string
  | AnalyzeTranscript string
  | GetAnalysis string
  | GetAnalysisByTranscript string
  | DeleteAnalysis string
  | GenerateCoachingPlan string "string option"
  | GetCoachingPlan string
  | GetCoachingPlanByAnalysis string
  | UpdateCoachingPlan string coaching_update
  | DeleteCoachingPlan string

fun request_id :: "id_request \<Rightarrow> string" where
  "request_id (GetUploadInfo i) = i"
| "request_id (DeleteUpload i) = i"
| "request_id (UpdateStatus i b) = i"
| "request_id (TranscribeAudio i b) = i"
| "request_id (GetTranscript i) = i"
| "request_id (GetTranscriptByAudioFile i) = i"
| "request_id (UpdateTranscript i b) = i"
| "request_id (DeleteTranscript i) = i"
| "request_id (AnalyzeTranscript i) = i"
| "request_id (GetAnalysis i) = i"
| "request_id (GetAnalysisByTranscript i) = i"
| "request_id (DeleteAnalysis i) = i"
| "request_id (GenerateCoachingPlan i b) = i"
| "request_id (GetCoachingPlan i) = i"
| "request_id (GetCoachingPlanByAnalysis i) = i"
| "request_id (UpdateCoachingPlan i b) = i"
| "request_id (DeleteCoachingPlan i) = i"

record outside =
  out_request :: request_env
  out_stt :: stt_env
  out_analysis_llm :: "analysis_json llm_env"
  out_coaching_llm :: "coaching_json llm_env"
  out_fs :: "string \<Rightarrow> nat option"
  out_analysis_validators :: "analysis \<Rightarrow> string list"
  out_coaching_validators :: "coachingPlan \<Rightarrow> string list"
  out_coaching_joi :: "coaching_update \<Rightarrow> string option"

fun handle :: "outside \<Rightarrow> id_request \<Rightarrow> database \<Rightarrow> response \<times> database" where
  "handle out (GetUploadInfo i) db = getUploadInfo (out_fs out) i db"
| "handle out (DeleteUpload i) db = deleteUpload i db"
| "handle out (UpdateStatus i b) db = updateStatus (out_request out) i b db"
| "handle out (TranscribeAudio i b) db =
     transcribeAudio (out_request out) (out_stt out) i b db"
| "handle out (GetTranscript i) db = getTranscript i db"
| "handle out (GetTranscriptByAudioFile i) db = getTranscriptByAudioFile i db"
| "handle out (UpdateTranscript i b) db = updateTranscript (out_request out) i b db"
| "handle out (DeleteTranscript i) db = deleteTranscript i db"
| "handle out (AnalyzeTranscript i) db =
     analyzeTranscript (out_analysis_validators out) (out_request out)
       (out_analysis_llm out) i db"
| "handle out (GetAnalysis i) db = getAnalysis i db"
| "handle out (GetAnalysisByTranscript i) db = getAnalysisByTranscript i db"
| "handle out (DeleteAnalysis i) db = deleteAnalysis i db"
| "handle out (GenerateCoachingPlan i b) db =
     generateCoachingPlan (out_coaching_validators out) (out_request out)
       (out_coaching_llm out) i b db"
| "handle out (GetCoachingPlan i) db = getCoachingPlan i db"
| "handle out (GetCoachingPlanByAnalysis i) db = getCoachingPlanByAnalysis i db"
| "handle out (UpdateCoachingPlan i b) db =
     updateCoachingPlan (out_coaching_joi out) (out_request out) i b db"
| "handle out (DeleteCoachingPlan i) db = deleteCoachingPlan i db"

section \<open>Paginated lists\<close>








definition listed :: "payload \<Rightarrow> pagination \<Rightarrow> response" where
  "listed d pg = (success 200 [] d)\<lparr>res_pagination := Some pg\<rparr>"

























section \<open>The pipeline invariant\<close>

text \<open>At most one transcript for an audio file, one analysis for a transcript and one
  coaching plan for an analysis.\<close>

definition one_per_upstream :: "database \<Rightarrow> bool" where
  "one_per_upstream db =
     (distinct (map tr_audioFileId (transcripts db))
      \<and> distinct (map an_transcriptId (analyses db))
      \<and> distinct (map cp_analysisId (coachingPlans db)))"

section \<open>Sample data\<close>

text \<open>One uploaded recording, a store that holds it, and a provider that answers with a
  given result; the theorems below are instantiated on them.\<close>

definition sample_audio :: audioFile where
  "sample_audio =
     \<lparr>af_id = 1, af_originalName = ''call.wav'', af_filename = ''u1.wav'',
      af_path = ''uploads/u1.wav'', af_mimetype = ''audio/wav'', af_size = 10240,
      af_duration = None, af_uploadedAt = 100, af_status = ''uploaded'',
      af_createdAt = 100, af_updatedAt = 100\<rparr>"

definition sample_db :: database where
  "sample_db =
     \<lparr>audioFiles = [sample_audio], transcripts = [], analyses = [], coachingPlans = [],
      accesses = []\<rparr>"

definition sample_renv :: request_env where
  "sample_renv = \<lparr>now = 200, newId = 2\<rparr>"

definition sample_stt :: "whisper_reply \<Rightarrow> stt_env" where
  "sample_stt reply =
     \<lparr>stt_apiKey = Some ''sk-key'', stt_fileSize = (\<lambda>p. Some 10240),
      stt_reply = reply, stt_elapsed = 1200\<rparr>"

definition sample_transcript :: transcript where
  "sample_transcript =
     \<lparr>tr_id = 2, tr_audioFileId = 1, tr_text = ''hello'', tr_confidence = 0.8,
      tr_segments = [], tr_language = ''en'', tr_processingTime = 1200,
      tr_createdAt = 200, tr_updatedAt = 200\<rparr>"

definition sample_analysis_reply :: analysis_json where
  "sample_analysis_reply =
     \<lparr>aj_sentiment = Val \<lparr>sj_overall = Val ''positive'', sj_score = Val 0.5,
                           sj_confidence = Undefined\<rparr>,
      aj_emotions = Undefined, aj_keyTopics = Undefined, aj_communicationMetrics = Undefined,
      aj_customerSatisfaction = Val (JObj [(''score'', JNum 8)]),
      aj_issueResolution = Undefined, aj_compliance = Undefined,
      aj_summary = Val ''The customer was helped.''\<rparr>"

definition sample_coaching_reply :: coaching_json where
  "sample_coaching_reply =
     \<lparr>cj_agentId = Val ''agent_007'',
      cj_overallPerformance = Val \<lparr>pj_score = Val 85, pj_level = Val ''good''\<rparr>,
      cj_strengths = Undefined, cj_improvementAreas = Undefined, cj_actionItems = Undefined,
      cj_trainingRecommendations = Undefined, cj_followUpPlan = Undefined,
      cj_customNotes = Val (JStr ''Keep it up.'')\<rparr>"

definition sample_llm :: "'a llm_reply \<Rightarrow> 'a llm_env" where
  "sample_llm reply = \<lparr>llm_apiKey = Some ''sk-key'', llm_reply = reply, llm_elapsed = 900\<rparr>"

definition sample_analysis :: analysis where
  "sample_analysis =
     \<lparr>an_id = 3, an_transcriptId = 2, an_audioFileId = 1,
      an_sentiment = Val \<lparr>sj_overall = Val ''positive'', sj_score = Val 0.5,
                           sj_confidence = Val 0\<rparr>,
      an_emotions = Undefined, an_keyTopics = Undefined, an_communicationMetrics = Undefined,
      an_customerSatisfaction = Undefined, an_issueResolution = Undefined,
      an_compliance = Undefined, an_summary = Val ''The customer was helped.'',
      an_processingTime = 900, an_createdAt = 300, an_updatedAt = 300\<rparr>"

definition sample_plan :: coachingPlan where
  "sample_plan =
     \<lparr>cp_id = 4, cp_analysisId = 3, cp_audioFileId = 1, cp_agentId = Val ''agent_007'',
      cp_overallPerformance = Val \<lparr>pj_score = Val 85, pj_level = Val ''good''\<rparr>,
      cp_strengths = Undefined, cp_improvementAreas = Undefined, cp_actionItems = Undefined,
      cp_trainingRecommendations = Undefined, cp_followUpPlan = Undefined,
      cp_customNotes = Undefined, cp_generatedAt = 400, cp_createdAt = 400,
      cp_updatedAt = 400\<rparr>"

text \<open>Stores after each stage of the pipeline has run once.\<close>

definition full_db :: database where
  "full_db =
     \<lparr>audioFiles = [sample_audio], transcripts = [sample_transcript],
      analyses = [sample_analysis], coachingPlans = [sample_plan], accesses = []\<rparr>"

definition transcribed_db :: database where
  "transcribed_db = sample_db\<lparr>transcripts := [sample_transcript]\<rparr>"

definition analysed_db :: database where
  "analysed_db = transcribed_db\<lparr>analyses := [sample_analysis]\<rparr>"



definition sample_outside :: outside where
  "sample_outside =
     \<lparr>out_request = sample_renv,
      out_stt = sample_stt (FetchFailed ''unreachable''),
      out_analysis_llm = sample_llm (CallFailed ''unreachable''),
      out_coaching_llm = sample_llm (CallFailed ''unreachable''),
      out_fs = (\<lambda>p. None),
      out_analysis_validators = (\<lambda>a. []),
      out_coaching_validators = (\<lambda>c. []),
      out_coaching_joi = (\<lambda>b. None)\<rparr>"

definition sample_upload_env :: upload_env where
  "sample_upload_env =
     \<lparr>up_maxFileSize = ''50MB'', up_uploadPath = ''uploads'', up_uuid = ''u7''\<rparr>"

section \<open>Properties\<close>

subsection \<open>Helper facts about the store and the sample data\<close>

lemma find_update_first:
  "(\<And>x. P (f x) = P x) \<Longrightarrow> find P (update_first P f xs) = map_option f (find P xs)"
  by (induction xs) auto

lemma calculateOverallConfidence_le_1: "calculateOverallConfidence ss \<le> 1"
  by (simp add: calculateOverallConfidence_def split: prod.splits)

lemmas db_ops = AudioFile_findById_def Transcript_findOne_def AudioFile_findByIdAndUpdate_def
  Transcript_save_def logged_def

lemma sample_id:
  "valid_id ''000000000000000000000001'' \<and> ObjectId ''000000000000000000000001'' = 1"
  by (simp add: valid_id_def is_hex_def ObjectId_def hex_value_def)

lemma sample_lang: "''en'' \<in> set getSupportedLanguages"
  by (simp add: getSupportedLanguages_def)

lemma sample_extname: "extname ''uploads/u1.wav'' = ''.wav''"
  by (simp add: extname_def eval_nat_numeral)

lemma sample_stt_ok:
  "stt_transcribeAudio
     (sample_stt (Ok \<lparr>wr_text = t, wr_segments = None, wr_language = None,
                      wr_duration = Some 5\<rparr>))
     ''uploads/u1.wav'' ''en''
   = Inr \<lparr>tres_text = str_or t [], tres_confidence = 0.8, tres_segments = [],
          tres_language = ''en'', tres_duration = 5, tres_processingTime = 1200\<rparr>"
  by (simp add: stt_transcribeAudio_def stt_attempt_def stt_call_def sample_stt_def
      apiKey_missing_def maxFileSize_def sample_extname toLowerCase_def lower_char_def
      supportedFormats_def calculateOverallConfidence_def transformSegments_def)

lemma sample_stt_error:
  "stt_transcribeAudio
     (sample_stt (NotOk 429 ''Too Many Requests'' (Some ''Rate limit reached'')))
     ''uploads/u1.wav'' ''en''
   = Inl ''Transcription failed: OpenAI API Error (429): Rate limit reached''"
  by (simp add: stt_transcribeAudio_def stt_attempt_def stt_call_def sample_stt_def
      apiKey_missing_def maxFileSize_def sample_extname toLowerCase_def lower_char_def
      supportedFormats_def string_of_nat.simps digit_char_def)

subsection \<open>Overall confidence\<close>

lemma confidence_loop_sums:
  "confidence_loop ss (t, w) =
     (t + total_duration (transformSegments ss),
      w + weighted_confidence (transformSegments ss))"
  by (induction ss arbitrary: t w)
     (simp_all add: total_duration_def weighted_confidence_def transformSegments_def
        algebra_simps)

lemma transformSegments_confident:
  "\<not> (\<exists>s \<in> set (transformSegments raw). seg_confidence s = None)"
  by (auto simp: transformSegments_def)

lemma weighted_le_total:
  assumes "\<forall>s \<in> set segs. seg_start s \<le> seg_end s
             \<and> (\<exists>c. seg_confidence s = Some c \<and> c \<le> 1)"
  shows "weighted_confidence segs \<le> total_duration segs"
  using assms
proof (induction segs)
  case Nil
  then show ?case by (simp add: weighted_confidence_def total_duration_def)
next
  case (Cons s segs)
  obtain c where c: "seg_confidence s = Some c" "c \<le> 1"
    using Cons.prems by auto
  have "c * (seg_end s - seg_start s) \<le> 1 * (seg_end s - seg_start s)"
    using Cons.prems c by (intro mult_right_mono) simp_all
  moreover have "weighted_confidence segs \<le> total_duration segs"
    using Cons by simp
  ultimately show ?case
    using c by (simp add: weighted_confidence_def total_duration_def)
qed

text \<open>
  C6 (as amended). A segment whose log-probability is missing gets the confidence 0.8,
  and \<open>transformSegments\<close> returns one segment per input segment. When the durations of
  the segments sum to a positive number, the overall confidence is the duration-weighted
  average of the per-segment confidences, capped at 1; it is that average itself when no
  segment ends before it starts and no per-segment confidence exceeds 1. When the list is
  empty or the durations do not sum to a positive number, the overall confidence is 0.8.
\<close>

theorem overall_confidence_weighted_average:
  "length (transformSegments raw) = length raw
   \<and> (\<forall>i < length raw. avg_logprob (raw ! i) = None
         \<longrightarrow> seg_confidence (transformSegments raw ! i) = Some 0.8)
   \<and> (0 < total_duration (transformSegments raw)
         \<longrightarrow> (\<exists>a. duration_weighted_average (transformSegments raw) = Some a
                  \<and> calculateOverallConfidence raw = min a 1))
   \<and> (0 < total_duration (transformSegments raw)
        \<and> (\<forall>s \<in> set (transformSegments raw).
              seg_start s \<le> seg_end s \<and> (\<exists>c. seg_confidence s = Some c \<and> c \<le> 1))
         \<longrightarrow> duration_weighted_average (transformSegments raw)
               = Some (calculateOverallConfidence raw))
   \<and> (\<not> 0 < total_duration (transformSegments raw)
         \<longrightarrow> calculateOverallConfidence raw = 0.8)"
proof -
  let ?segs = "transformSegments raw"
  have len: "length ?segs = length raw"
    by (simp add: transformSegments_def)
  have absent: "\<forall>i < length raw. avg_logprob (raw ! i) = None
                  \<longrightarrow> seg_confidence (?segs ! i) = Some 0.8"
    by (simp add: transformSegments_def segment_confidence_def)
  have loop: "confidence_loop raw (0, 0) = (total_duration ?segs, weighted_confidence ?segs)"
    using confidence_loop_sums [of raw 0 0] by simp
  have nonempty: "raw \<noteq> []" if "0 < total_duration ?segs"
    using that by (auto simp: transformSegments_def total_duration_def)
  have pos: "calculateOverallConfidence raw
               = min (weighted_confidence ?segs / total_duration ?segs) 1"
    if "0 < total_duration ?segs"
    using that nonempty [OF that] by (simp add: calculateOverallConfidence_def loop)
  have avg: "duration_weighted_average ?segs
               = Some (weighted_confidence ?segs / total_duration ?segs)"
    if "0 < total_duration ?segs"
    using that transformSegments_confident [of raw]
    by (simp add: duration_weighted_average_def)
  have capped: "\<exists>a. duration_weighted_average ?segs = Some a
                   \<and> calculateOverallConfidence raw = min a 1"
    if "0 < total_duration ?segs"
    using pos [OF that] avg [OF that] by simp
  have exact: "duration_weighted_average ?segs = Some (calculateOverallConfidence raw)"
    if t: "0 < total_duration ?segs"
      and b: "\<forall>s \<in> set ?segs. seg_start s \<le> seg_end s
                \<and> (\<exists>c. seg_confidence s = Some c \<and> c \<le> 1)"
  proof -
    have "weighted_confidence ?segs / total_duration ?segs \<le> 1"
      using weighted_le_total [OF b] t by simp
    then show ?thesis
      using pos [OF t] avg [OF t] by simp
  qed
  have other: "calculateOverallConfidence raw = 0.8" if "\<not> 0 < total_duration ?segs"
    using that by (simp add: calculateOverallConfidence_def loop)
  show ?thesis
    using len absent capped exact other by blast
qed

text \<open>Witness: two segments without a log-probability, lasting 2 and 3 seconds.\<close>

theorem overall_confidence_weighted_average_witness:
  "0 < total_duration (transformSegments
         [\<lparr>ws_text = Some ''hello'', ws_start = Some 0, ws_end = Some 2, avg_logprob = None\<rparr>,
          \<lparr>ws_text = Some ''bye'', ws_start = Some 2, ws_end = Some 5, avg_logprob = None\<rparr>])
   \<and> duration_weighted_average (transformSegments
         [\<lparr>ws_text = Some ''hello'', ws_start = Some 0, ws_end = Some 2, avg_logprob = None\<rparr>,
          \<lparr>ws_text = Some ''bye'', ws_start = Some 2, ws_end = Some 5, avg_logprob = None\<rparr>])
       = Some 0.8
   \<and> calculateOverallConfidence
         [\<lparr>ws_text = Some ''hello'', ws_start = Some 0, ws_end = Some 2, avg_logprob = None\<rparr>,
          \<lparr>ws_text = Some ''bye'', ws_start = Some 2, ws_end = Some 5, avg_logprob = None\<rparr>]
       = 0.8"
proof -
  let ?raw = "[\<lparr>ws_text = Some ''hello'', ws_start = Some 0, ws_end = Some 2, avg_logprob = None\<rparr>,
          \<lparr>ws_text = Some ''bye'', ws_start = Some 2, ws_end = Some 5, avg_logprob = None\<rparr>]"
  have t: "0 < total_duration (transformSegments ?raw)"
    by (simp add: transformSegments_def total_duration_def)
  have b: "\<forall>s \<in> set (transformSegments ?raw).
             seg_start s \<le> seg_end s \<and> (\<exists>c. seg_confidence s = Some c \<and> c \<le> 1)"
    by (auto simp: transformSegments_def segment_confidence_def intro!: exI [of _ "4 / 5"])
  have avg: "duration_weighted_average (transformSegments ?raw) = Some 0.8"
    by (simp add: transformSegments_def total_duration_def weighted_confidence_def
        duration_weighted_average_def segment_confidence_def)
  have "duration_weighted_average (transformSegments ?raw)
          = Some (calculateOverallConfidence ?raw)"
    using overall_confidence_weighted_average [of ?raw] t b by blast
  then show ?thesis
    using t avg by simp
qed

text \<open>
  The claim as stated fails on a non-empty list whose durations sum to zero: one segment
  that starts and ends at second 3. No weighted average exists, and the service
  answers 0.8.
\<close>

theorem overall_confidence_counterexample:
  "[\<lparr>ws_text = Some ''hm'', ws_start = Some 3, ws_end = Some 3, avg_logprob = None\<rparr>] \<noteq> []
   \<and> duration_weighted_average (transformSegments
        [\<lparr>ws_text = Some ''hm'', ws_start = Some 3, ws_end = Some 3, avg_logprob = None\<rparr>])
       = None
   \<and> calculateOverallConfidence
        [\<lparr>ws_text = Some ''hm'', ws_start = Some 3, ws_end = Some 3, avg_logprob = None\<rparr>]
       = 0.8"
  by (simp add: transformSegments_def total_duration_def duration_weighted_average_def
      calculateOverallConfidence_def segment_confidence_def)

subsection \<open>Helper facts about the controllers\<close>

lemmas db_ops2 = Transcript_findById_def Analysis_findById_def Analysis_findOne_def
  Analysis_save_def CoachingPlan_findById_def CoachingPlan_findOne_def CoachingPlan_save_def
  populate_audioFile_def populate_transcript_def populate_analysis_def

lemma find_None_notin: "find (\<lambda>x. f x = k) xs = None \<Longrightarrow> k \<notin> f ` set xs"
  by (auto simp: find_None_iff)

lemma transcribe_existing:
  assumes run: "transcribeAudio renv env audioFileId body_language db = (res, db')"
  shows "(find (\<lambda>t. tr_audioFileId t = ObjectId audioFileId) (transcripts db) = Some existing \<longrightarrow>
            transcripts db' = transcripts db
            \<and> ((case body_language of None \<Rightarrow> ''en'' | Some l \<Rightarrow> l) \<in> set getSupportedLanguages
                 \<and> valid_id audioFileId
                 \<and> find (\<lambda>a. af_id a = ObjectId audioFileId) (audioFiles db) \<noteq> None \<longrightarrow>
                res_status res = 409
                \<and> res_data res = ExistingId (tr_id existing) (tr_createdAt existing)
                \<and> audioFiles db' = audioFiles db))
       \<and> analyses db' = analyses db \<and> coachingPlans db' = coachingPlans db
       \<and> (distinct (map tr_audioFileId (transcripts db))
            \<longrightarrow> distinct (map tr_audioFileId (transcripts db')))"
  using run
  by (auto simp: transcribeAudio_def transcribe_proceed_def transcription_failed_def db_ops
      Let_def failure_def success_def
      split: prod.splits if_splits option.splits sum.splits dest!: find_None_notin)

lemma analyze_existing:
  assumes run: "analyzeTranscript others renv env transcriptId db = (res, db')"
  shows "(find (\<lambda>a. an_transcriptId a = ObjectId transcriptId) (analyses db) = Some existing \<longrightarrow>
            analyses db' = analyses db
            \<and> (valid_id transcriptId
                 \<and> find (\<lambda>t. tr_id t = ObjectId transcriptId) (transcripts db) \<noteq> None \<longrightarrow>
                res_status res = 409
                \<and> res_data res = ExistingId (an_id existing) (an_createdAt existing)))
       \<and> audioFiles db' = audioFiles db \<and> transcripts db' = transcripts db
       \<and> coachingPlans db' = coachingPlans db
       \<and> (distinct (map an_transcriptId (analyses db))
            \<longrightarrow> distinct (map an_transcriptId (analyses db')))"
  using run
  by (auto simp: analyzeTranscript_def analyze_proceed_def db_ops db_ops2
      Let_def failure_def success_def
      split: prod.splits if_splits option.splits sum.splits dest!: find_None_notin)

lemma coaching_existing:
  assumes run: "generateCoachingPlan others renv env analysisId body_agentId db = (res, db')"
  shows "(find (\<lambda>c. cp_analysisId c = ObjectId analysisId) (coachingPlans db) = Some existing \<longrightarrow>
            coachingPlans db' = coachingPlans db
            \<and> ((case body_agentId of None \<Rightarrow> ''agent_001'' | Some a \<Rightarrow> a) \<noteq> []
                 \<and> valid_id analysisId
                 \<and> find (\<lambda>a. an_id a = ObjectId analysisId) (analyses db) \<noteq> None \<longrightarrow>
                res_status res = 409
                \<and> res_data res = ExistingId (cp_id existing) (cp_createdAt existing)))
       \<and> audioFiles db' = audioFiles db \<and> transcripts db' = transcripts db
       \<and> analyses db' = analyses db
       \<and> (distinct (map cp_analysisId (coachingPlans db))
            \<longrightarrow> distinct (map cp_analysisId (coachingPlans db')))"
  using run
  by (auto simp: generateCoachingPlan_def coaching_proceed_def db_ops db_ops2
      Let_def failure_def success_def
      split: prod.splits if_splits option.splits sum.splits dest!: find_None_notin)

lemma sample_id2:
  "valid_id ''000000000000000000000002'' \<and> ObjectId ''000000000000000000000002'' = 2"
  by (simp add: valid_id_def is_hex_def ObjectId_def hex_value_def)

lemma sample_id3:
  "valid_id ''000000000000000000000003'' \<and> ObjectId ''000000000000000000000003'' = 3"
  by (simp add: valid_id_def is_hex_def ObjectId_def hex_value_def)

lemma required_str_Val: "required_str f \<Longrightarrow> \<exists>s. f = Val s"
  by (cases f) simp_all

lemma required_num_Val: "required_num f \<Longrightarrow> \<exists>x. f = Val x"
  by (cases f) simp_all

lemma sub_field_default [simp]:
  "sub_field sj_overall (with_default_confidence s) = sub_field sj_overall s"
  "sub_field sj_score (with_default_confidence s) = sub_field sj_score s"
  by (cases s; simp add: with_default_confidence_def)+

lemma analysis_valid_fields:
  assumes "analysis_invalid_paths others a = []"
  shows "\<exists>overall score summary.
           sub_field sj_overall (an_sentiment a) = Val overall
           \<and> sub_field sj_score (an_sentiment a) = Val score
           \<and> an_summary a = Val summary"
  using assms
  by (auto simp: analysis_invalid_paths_def Let_def split: if_splits
      dest: required_str_Val required_num_Val)

lemma coachingPlan_valid_fields:
  assumes "coachingPlan_invalid_paths others c = []"
  shows "\<exists>agent score level.
           cp_agentId c = Val agent
           \<and> sub_field pj_score (cp_overallPerformance c) = Val score
           \<and> sub_field pj_level (cp_overallPerformance c) = Val level"
  using assms
  by (auto simp: coachingPlan_invalid_paths_def Let_def split: if_splits
      dest: required_str_Val required_num_Val)

lemma llm_analyze_Inr:
  "llm_analyzeTranscript env t = Inr (r, p) \<Longrightarrow> llm_reply env = Parsed r"
  by (auto simp: llm_analyzeTranscript_def llm_analyze_attempt_def
      split: sum.splits if_splits llm_reply.splits option.splits)

lemma llm_coaching_Inr:
  "llm_generateCoachingPlan env a g = Inr r \<Longrightarrow> llm_reply env = Parsed r"
  by (auto simp: llm_generateCoachingPlan_def llm_coaching_attempt_def
      split: sum.splits if_splits llm_reply.splits option.splits)

lemma analyze_proceed_cases:
  assumes "analyze_proceed others renv env i t populated db = (res, db')"
  shows "(res_status res = 500 \<and> \<not> res_success res \<and> db' = db)
       \<or> (res_status res = 201 \<and> res_success res
           \<and> (\<exists>r p a. llm_analyzeTranscript env (tr_text t) = Inr (r, p)
                  \<and> analysis_invalid_paths others a = []
                  \<and> an_sentiment a = with_default_confidence (aj_sentiment r)
                  \<and> an_summary a = aj_summary r
                  \<and> db' = logged (WriteOp Analyses) (db\<lparr>analyses := analyses db @ [a]\<rparr>)))"
  using assms
  by (auto simp: analyze_proceed_def Analysis_save_def Let_def failure_def success_def
      split: sum.splits option.splits prod.splits if_splits)

lemma coaching_proceed_cases:
  assumes "coaching_proceed others renv env i a populated g db = (res, db')"
  shows "(res_status res = 500 \<and> \<not> res_success res \<and> db' = db)
       \<or> (res_status res = 201 \<and> res_success res
           \<and> (\<exists>r c. llm_generateCoachingPlan env a g = Inr r
                  \<and> coachingPlan_invalid_paths others c = []
                  \<and> cp_agentId c = cj_agentId r
                  \<and> cp_overallPerformance c = cj_overallPerformance r
                  \<and> db' = logged (WriteOp CoachingPlans)
                           (db\<lparr>coachingPlans := coachingPlans db @ [c]\<rparr>)))"
  using assms
  by (auto simp: coaching_proceed_def CoachingPlan_save_def Let_def failure_def success_def
      split: sum.splits option.splits prod.splits if_splits)

lemmas sample_defs = sample_db_def sample_audio_def sample_transcript_def sample_analysis_def
  sample_plan_def full_db_def transcribed_db_def analysed_db_def sample_renv_def sample_llm_def
  sample_analysis_reply_def sample_coaching_reply_def

subsection \<open>Transcription\<close>

text \<open>
  C2 (as amended). A transcription request names an existing audio file that has no
  transcript, the call to the speech-to-text service returns a result, and the new
  document passes the validators of the transcript schema (the text is not empty and the
  confidence is not negative; it never exceeds 1). Then the answer is 201, exactly one
  transcript is added, it holds the text, confidence, segments, language and processing
  time of the result, and the audio file has the status \<open>completed\<close> and the duration
  of the result.
\<close>

theorem transcription_success_persists:
  assumes lang: "(case body_language of None \<Rightarrow> ''en'' | Some l \<Rightarrow> l)
                   \<in> set getSupportedLanguages"
    and valid: "valid_id audioFileId"
    and af: "find (\<lambda>a. af_id a = ObjectId audioFileId) (audioFiles db) = Some audioFile"
    and no_tr: "find (\<lambda>t. tr_audioFileId t = ObjectId audioFileId) (transcripts db) = None"
    and stt: "stt_transcribeAudio env (af_path audioFile)
                (case body_language of None \<Rightarrow> ''en'' | Some l \<Rightarrow> l) = Inr r"
    and nonempty: "tres_text r \<noteq> []"
    and conf: "0 \<le> tres_confidence r"
    and run: "transcribeAudio renv env audioFileId body_language db = (res, db')"
  shows "res_status res = 201
       \<and> (\<exists>t. transcripts db' = transcripts db @ [t]
              \<and> tr_audioFileId t = ObjectId audioFileId
              \<and> tr_text t = tres_text r
              \<and> tr_confidence t = tres_confidence r
              \<and> tr_segments t = tres_segments r
              \<and> tr_language t = tres_language r
              \<and> tr_processingTime t = tres_processingTime r
              \<and> res_data res = TranscriptData t)
       \<and> (\<exists>a. find (\<lambda>a. af_id a = ObjectId audioFileId) (audioFiles db') = Some a
              \<and> af_status a = ''completed''
              \<and> af_duration a = Some (tres_duration r))"
proof -
  have c1: "tres_confidence r \<le> 1"
    using stt
    by (auto simp: stt_transcribeAudio_def stt_attempt_def stt_call_def Let_def
        calculateOverallConfidence_le_1
        split: sum.splits if_splits option.splits whisper_reply.splits)
  show ?thesis
    using assms c1
    by (auto simp: transcribeAudio_def transcribe_proceed_def db_ops Let_def success_def
        transcript_invalid_paths_def find_update_first split: prod.splits)
qed

text \<open>Witness: the sample recording, transcribed as "hello".\<close>

theorem transcription_success_persists_witness:
  "res_status (fst (transcribeAudio sample_renv
       (sample_stt (Ok \<lparr>wr_text = Some ''hello'', wr_segments = None, wr_language = None,
                        wr_duration = Some 5\<rparr>))
       ''000000000000000000000001'' None sample_db)) = 201
   \<and> (\<exists>t. transcripts (snd (transcribeAudio sample_renv
       (sample_stt (Ok \<lparr>wr_text = Some ''hello'', wr_segments = None, wr_language = None,
                        wr_duration = Some 5\<rparr>))
       ''000000000000000000000001'' None sample_db)) = [t] \<and> tr_text t = ''hello'')
   \<and> (\<exists>a. find (\<lambda>a. af_id a = 1) (audioFiles (snd (transcribeAudio sample_renv
       (sample_stt (Ok \<lparr>wr_text = Some ''hello'', wr_segments = None, wr_language = None,
                        wr_duration = Some 5\<rparr>))
       ''000000000000000000000001'' None sample_db))) = Some a
          \<and> af_status a = ''completed'' \<and> af_duration a = Some 5)"
proof -
  let ?env = "sample_stt (Ok \<lparr>wr_text = Some ''hello'', wr_segments = None,
                              wr_language = None, wr_duration = Some 5\<rparr>)"
  let ?run = "transcribeAudio sample_renv ?env ''000000000000000000000001'' None sample_db"
  let ?r = "\<lparr>tres_text = ''hello'', tres_confidence = 0.8, tres_segments = [],
            tres_language = ''en'', tres_duration = 5, tres_processingTime = 1200\<rparr>"
  have h1: "(case None of None \<Rightarrow> ''en'' | Some l \<Rightarrow> l) \<in> set getSupportedLanguages"
    using sample_lang by simp
  have h2: "valid_id ''000000000000000000000001''"
    using sample_id by simp
  have h3: "find (\<lambda>a. af_id a = ObjectId ''000000000000000000000001'') (audioFiles sample_db)
              = Some sample_audio"
    by (simp add: sample_id sample_db_def sample_audio_def)
  have h4: "find (\<lambda>t. tr_audioFileId t = ObjectId ''000000000000000000000001'')
              (transcripts sample_db) = None"
    by (simp add: sample_db_def)
  have h5: "stt_transcribeAudio ?env (af_path sample_audio)
              (case None of None \<Rightarrow> ''en'' | Some l \<Rightarrow> l) = Inr ?r"
    using sample_stt_ok [of "Some ''hello''"] by (simp add: sample_audio_def)
  have h6: "tres_text ?r \<noteq> []" by simp
  have h7: "0 \<le> tres_confidence ?r" by simp
  have h8: "?run = (fst ?run, snd ?run)" by simp
  show ?thesis
    using transcription_success_persists [OF h1 h2 h3 h4 h5 h6 h7 h8]
    by (auto simp: sample_id sample_db_def)
qed

text \<open>
  The claim as stated fails when the provider succeeds with an empty text (a recording
  without speech): the schema requires \<open>text\<close>, \<open>save\<close> throws, no transcript is
  stored and the audio file is marked \<open>failed\<close>.
\<close>

theorem transcription_success_counterexample:
  "stt_transcribeAudio
     (sample_stt (Ok \<lparr>wr_text = Some [], wr_segments = None, wr_language = None,
                      wr_duration = Some 5\<rparr>))
     (af_path sample_audio) ''en''
   = Inr \<lparr>tres_text = [], tres_confidence = 0.8, tres_segments = [],
          tres_language = ''en'', tres_duration = 5, tres_processingTime = 1200\<rparr>
   \<and> res_status (fst (transcribeAudio sample_renv
        (sample_stt (Ok \<lparr>wr_text = Some [], wr_segments = None, wr_language = None,
                         wr_duration = Some 5\<rparr>))
        ''000000000000000000000001'' None sample_db)) = 500
   \<and> transcripts (snd (transcribeAudio sample_renv
        (sample_stt (Ok \<lparr>wr_text = Some [], wr_segments = None, wr_language = None,
                         wr_duration = Some 5\<rparr>))
        ''000000000000000000000001'' None sample_db)) = []
   \<and> map af_status (audioFiles (snd (transcribeAudio sample_renv
        (sample_stt (Ok \<lparr>wr_text = Some [], wr_segments = None, wr_language = None,
                         wr_duration = Some 5\<rparr>))
        ''000000000000000000000001'' None sample_db))) = [''failed'']"
  using sample_stt_ok [of "Some []"]
  by (simp add: transcribeAudio_def transcribe_proceed_def transcription_failed_def db_ops
      Let_def failure_def sample_id sample_lang sample_db_def sample_audio_def sample_renv_def
      transcript_invalid_paths_def)

text \<open>
  Once the key, the file and its format have passed the local checks, the service's
  attempt is the call to the provider.
\<close>

lemma stt_reaches_provider:
  assumes "\<not> apiKey_missing (stt_apiKey env)"
    and "stt_fileSize env filePath = Some bytes" and "bytes \<le> maxFileSize"
    and "remove_first_dot (toLowerCase (extname filePath)) \<in> set supportedFormats"
  shows "stt_attempt env filePath language = stt_call env language"
  using assms by (simp add: stt_attempt_def Let_def)

text \<open>
  C3. A transcription request has passed the existence check and the conflict check, and
  the call to the speech-to-text service fails with the message \<open>msg\<close>. Then the answer
  is a 500 failure whose \<open>error\<close> is \<open>msg\<close>, which is the text of the underlying error
  behind the prefix "Transcription failed: "; no transcript is added, and the audio file
  has the status \<open>failed\<close>. The text is the provider's own whenever the provider was
  reached (the key is set, the file exists within the size limit and has a supported
  format): a failed request \<open>FetchFailed e\<close> puts \<open>e\<close> behind the prefix, and a refusal
  \<open>NotOk code statusText errorMessage\<close> puts there "OpenAI API Error (code): " followed by
  the provider's error message \<open>e\<close> when it gave a non-empty one, and by the status text
  otherwise.
\<close>

theorem transcription_failure_marks_failed:
  assumes lang: "(case body_language of None \<Rightarrow> ''en'' | Some l \<Rightarrow> l)
                   \<in> set getSupportedLanguages"
    and valid: "valid_id audioFileId"
    and af: "find (\<lambda>a. af_id a = ObjectId audioFileId) (audioFiles db) = Some audioFile"
    and no_tr: "find (\<lambda>t. tr_audioFileId t = ObjectId audioFileId) (transcripts db) = None"
    and stt: "stt_transcribeAudio env (af_path audioFile)
                (case body_language of None \<Rightarrow> ''en'' | Some l \<Rightarrow> l) = Inl msg"
    and run: "transcribeAudio renv env audioFileId body_language db = (res, db')"
  shows "res_status res = 500 \<and> \<not> res_success res
       \<and> res_error res = Some (Message msg)
       \<and> (\<exists>m. msg = ''Transcription failed: '' @ m
              \<and> stt_attempt env (af_path audioFile)
                   (case body_language of None \<Rightarrow> ''en'' | Some l \<Rightarrow> l) = Inl m)
       \<and> transcripts db' = transcripts db
       \<and> (\<exists>a. find (\<lambda>a. af_id a = ObjectId audioFileId) (audioFiles db') = Some a
              \<and> af_status a = ''failed'')
       \<and> (\<not> apiKey_missing (stt_apiKey env)
            \<and> (\<exists>bytes. stt_fileSize env (af_path audioFile) = Some bytes
                         \<and> bytes \<le> maxFileSize)
            \<and> remove_first_dot (toLowerCase (extname (af_path audioFile)))
                 \<in> set supportedFormats \<longrightarrow>
              (\<forall>e. stt_reply env = FetchFailed e \<longrightarrow>
                     res_error res = Some (Message (''Transcription failed: '' @ e)))
              \<and> (\<forall>code statusText errorMessage.
                     stt_reply env = NotOk code statusText errorMessage \<longrightarrow>
                     res_error res
                       = Some (Message (''Transcription failed: OpenAI API Error (''
                                        @ string_of_nat code @ ''): ''
                                        @ str_or errorMessage statusText)))
              \<and> (\<forall>code statusText e.
                     stt_reply env = NotOk code statusText (Some e) \<and> e \<noteq> [] \<longrightarrow>
                     res_error res
                       = Some (Message (''Transcription failed: OpenAI API Error (''
                                        @ string_of_nat code @ ''): '' @ e))))"
proof -
  let ?language = "case body_language of None \<Rightarrow> ''en'' | Some l \<Rightarrow> l"
  have wrapped: "\<exists>m. msg = ''Transcription failed: '' @ m
              \<and> stt_attempt env (af_path audioFile) ?language = Inl m"
    using stt by (auto simp: stt_transcribeAudio_def split: sum.splits)
  have rest: "res_status res = 500 \<and> \<not> res_success res
       \<and> res_error res = Some (Message msg)
       \<and> transcripts db' = transcripts db
       \<and> (\<exists>a. find (\<lambda>a. af_id a = ObjectId audioFileId) (audioFiles db') = Some a
              \<and> af_status a = ''failed'')"
    using lang valid af no_tr stt run
    by (auto simp: transcribeAudio_def transcribe_proceed_def transcription_failed_def db_ops
        Let_def failure_def find_update_first split: prod.splits)
  have provider: "msg = ''Transcription failed: '' @ m"
    if reach: "\<not> apiKey_missing (stt_apiKey env)"
        "stt_fileSize env (af_path audioFile) = Some bytes" "bytes \<le> maxFileSize"
        "remove_first_dot (toLowerCase (extname (af_path audioFile))) \<in> set supportedFormats"
      and call: "stt_call env ?language = Inl m"
    for bytes m
    using stt stt_reaches_provider [OF reach, of ?language] call
    by (simp add: stt_transcribeAudio_def)
  have fetch: "res_error res = Some (Message (''Transcription failed: '' @ e))"
    if "\<not> apiKey_missing (stt_apiKey env)"
        "stt_fileSize env (af_path audioFile) = Some bytes" "bytes \<le> maxFileSize"
        "remove_first_dot (toLowerCase (extname (af_path audioFile))) \<in> set supportedFormats"
        "stt_reply env = FetchFailed e"
    for bytes e
    using provider [OF that(1-4), of e] that(5) rest by (simp add: stt_call_def)
  have notok: "res_error res
                 = Some (Message (''Transcription failed: OpenAI API Error (''
                                  @ string_of_nat code @ ''): ''
                                  @ str_or errorMessage statusText))"
    if "\<not> apiKey_missing (stt_apiKey env)"
        "stt_fileSize env (af_path audioFile) = Some bytes" "bytes \<le> maxFileSize"
        "remove_first_dot (toLowerCase (extname (af_path audioFile))) \<in> set supportedFormats"
        "stt_reply env = NotOk code statusText errorMessage"
    for bytes code statusText errorMessage
    using provider [OF that(1-4),
        of "''OpenAI API Error ('' @ string_of_nat code @ ''): ''
            @ str_or errorMessage statusText"] that(5) rest
    by (simp add: stt_call_def)
  have notok_text: "res_error res
                 = Some (Message (''Transcription failed: OpenAI API Error (''
                                  @ string_of_nat code @ ''): '' @ e))"
    if "\<not> apiKey_missing (stt_apiKey env)"
        "stt_fileSize env (af_path audioFile) = Some bytes" "bytes \<le> maxFileSize"
        "remove_first_dot (toLowerCase (extname (af_path audioFile))) \<in> set supportedFormats"
        "stt_reply env = NotOk code statusText (Some e)" "e \<noteq> []"
    for bytes code statusText e
    using notok [OF that(1-5)] that(6) by simp
  show ?thesis
    using wrapped rest fetch notok notok_text by blast
qed

text \<open>Witness: the provider answers 429 with the message "Rate limit reached".\<close>

theorem transcription_failure_marks_failed_witness:
  "res_status (fst (transcribeAudio sample_renv
       (sample_stt (NotOk 429 ''Too Many Requests'' (Some ''Rate limit reached'')))
       ''000000000000000000000001'' None sample_db)) = 500
   \<and> res_error (fst (transcribeAudio sample_renv
       (sample_stt (NotOk 429 ''Too Many Requests'' (Some ''Rate limit reached'')))
       ''000000000000000000000001'' None sample_db))
      = Some (Message ''Transcription failed: OpenAI API Error (429): Rate limit reached'')
   \<and> transcripts (snd (transcribeAudio sample_renv
       (sample_stt (NotOk 429 ''Too Many Requests'' (Some ''Rate limit reached'')))
       ''000000000000000000000001'' None sample_db)) = []
   \<and> (\<exists>a. find (\<lambda>a. af_id a = 1) (audioFiles (snd (transcribeAudio sample_renv
       (sample_stt (NotOk 429 ''Too Many Requests'' (Some ''Rate limit reached'')))
       ''000000000000000000000001'' None sample_db))) = Some a \<and> af_status a = ''failed'')"
proof -
  let ?env = "sample_stt (NotOk 429 ''Too Many Requests'' (Some ''Rate limit reached''))"
  let ?run = "transcribeAudio sample_renv ?env ''000000000000000000000001'' None sample_db"
  have h1: "(case None of None \<Rightarrow> ''en'' | Some l \<Rightarrow> l) \<in> set getSupportedLanguages"
    using sample_lang by simp
  have h2: "valid_id ''000000000000000000000001''"
    using sample_id by simp
  have h3: "find (\<lambda>a. af_id a = ObjectId ''000000000000000000000001'') (audioFiles sample_db)
              = Some sample_audio"
    by (simp add: sample_id sample_db_def sample_audio_def)
  have h4: "find (\<lambda>t. tr_audioFileId t = ObjectId ''000000000000000000000001'')
              (transcripts sample_db) = None"
    by (simp add: sample_db_def)
  have h5: "stt_transcribeAudio ?env (af_path sample_audio)
              (case None of None \<Rightarrow> ''en'' | Some l \<Rightarrow> l)
            = Inl ''Transcription failed: OpenAI API Error (429): Rate limit reached''"
    using sample_stt_error by (simp add: sample_audio_def)
  have h6: "?run = (fst ?run, snd ?run)" by simp
  note t = transcription_failure_marks_failed [OF h1 h2 h3 h4 h5 h6]
  have reach: "\<not> apiKey_missing (stt_apiKey ?env)
            \<and> (\<exists>bytes. stt_fileSize ?env (af_path sample_audio) = Some bytes
                         \<and> bytes \<le> maxFileSize)
            \<and> remove_first_dot (toLowerCase (extname (af_path sample_audio)))
                 \<in> set supportedFormats"
    by (simp add: sample_stt_def apiKey_missing_def maxFileSize_def sample_audio_def
        sample_extname toLowerCase_def lower_char_def supportedFormats_def)
  have reply: "stt_reply ?env = NotOk 429 ''Too Many Requests'' (Some ''Rate limit reached'')
               \<and> ''Rate limit reached'' \<noteq> []"
    by (simp add: sample_stt_def)
  have code: "string_of_nat 429 = ''429''"
    by (simp add: string_of_nat.simps digit_char_def)
  have err: "res_error (fst ?run)
               = Some (Message (''Transcription failed: OpenAI API Error (''
                                @ string_of_nat 429 @ ''): '' @ ''Rate limit reached''))"
    using t reach reply by blast
  have s: "res_status (fst ?run) = 500" and tr: "transcripts (snd ?run) = transcripts sample_db"
    and a: "\<exists>a. find (\<lambda>a. af_id a = ObjectId ''000000000000000000000001'')
                   (audioFiles (snd ?run)) = Some a \<and> af_status a = ''failed''"
    using t by blast+
  show ?thesis
    using s tr a err code by (simp add: sample_id sample_db_def)
qed

text \<open>
  C10. When a transcription request is answered with 409, the store holds the same audio
  files with the same fields as before (and the same documents in every other
  collection), and the request has only read: one lookup of the audio file and one of the
  transcript. In any run of the request that writes to the audio files, the lookup of an
  existing transcript had found none, and the answer is not 409.
\<close>

theorem conflict_leaves_audio_file_unchanged:
  assumes run: "transcribeAudio renv env audioFileId body_language db = (res, db')"
  shows "(res_status res = 409 \<longrightarrow>
            audioFiles db' = audioFiles db \<and> transcripts db' = transcripts db
            \<and> analyses db' = analyses db \<and> coachingPlans db' = coachingPlans db
            \<and> accesses db' = accesses db @ [ReadOp AudioFiles, ReadOp Transcripts])
       \<and> (WriteOp AudioFiles \<in> set (drop (length (accesses db)) (accesses db')) \<longrightarrow>
            res_status res \<noteq> 409
            \<and> find (\<lambda>t. tr_audioFileId t = ObjectId audioFileId) (transcripts db) = None)"
  using run
  by (auto simp: transcribeAudio_def transcribe_proceed_def transcription_failed_def db_ops
      Let_def failure_def success_def split: prod.splits if_splits option.splits sum.splits)

text \<open>Witness: the sample recording already has a transcript.\<close>

theorem conflict_leaves_audio_file_unchanged_witness:
  "res_status (fst (transcribeAudio sample_renv (sample_stt (FetchFailed ''unreachable''))
       ''000000000000000000000001'' None (sample_db\<lparr>transcripts := [sample_transcript]\<rparr>)))
     = 409
   \<and> audioFiles (snd (transcribeAudio sample_renv (sample_stt (FetchFailed ''unreachable''))
       ''000000000000000000000001'' None (sample_db\<lparr>transcripts := [sample_transcript]\<rparr>)))
     = [sample_audio]
   \<and> accesses (snd (transcribeAudio sample_renv (sample_stt (FetchFailed ''unreachable''))
       ''000000000000000000000001'' None (sample_db\<lparr>transcripts := [sample_transcript]\<rparr>)))
     = [ReadOp AudioFiles, ReadOp Transcripts]"
proof -
  let ?db = "sample_db\<lparr>transcripts := [sample_transcript]\<rparr>"
  let ?run = "transcribeAudio sample_renv (sample_stt (FetchFailed ''unreachable''))
                ''000000000000000000000001'' None ?db"
  have h: "?run = (fst ?run, snd ?run)" by simp
  have c: "res_status (fst ?run) = 409"
    by (simp add: transcribeAudio_def db_ops Let_def sample_id sample_lang sample_db_def
        sample_audio_def sample_transcript_def)
  show ?thesis
    using conflict_leaves_audio_file_unchanged [OF h] c
    by (simp add: sample_db_def)
qed

subsection \<open>One downstream record per upstream record\<close>

text \<open>
  C1 (as amended). For each stage (transcription for an audio file, analysis for a
  transcript, coaching for an analysis): when a downstream record exists for the upstream
  identifier, the create call adds no downstream record, whatever it answers; and when the
  request also passes the checks that precede the conflict check (a valid body, a
  well-formed identifier, an upstream record that exists), the answer is 409 and carries
  the identifier of the existing record. Every create call keeps the invariant that no
  upstream record has two downstream records.
\<close>

theorem existing_downstream_conflict:
  assumes r1: "transcribeAudio renv senv audioFileId body_language db = (res1, db1)"
    and r2: "analyzeTranscript others2 renv aenv transcriptId db = (res2, db2)"
    and r3: "generateCoachingPlan others3 renv cenv analysisId body_agentId db = (res3, db3)"
  shows "(find (\<lambda>t. tr_audioFileId t = ObjectId audioFileId) (transcripts db) = Some existing1 \<longrightarrow>
            transcripts db1 = transcripts db
            \<and> ((case body_language of None \<Rightarrow> ''en'' | Some l \<Rightarrow> l) \<in> set getSupportedLanguages
                 \<and> valid_id audioFileId
                 \<and> find (\<lambda>a. af_id a = ObjectId audioFileId) (audioFiles db) \<noteq> None \<longrightarrow>
                res_status res1 = 409
                \<and> res_data res1 = ExistingId (tr_id existing1) (tr_createdAt existing1)))
       \<and> (find (\<lambda>a. an_transcriptId a = ObjectId transcriptId) (analyses db) = Some existing2 \<longrightarrow>
            analyses db2 = analyses db
            \<and> (valid_id transcriptId
                 \<and> find (\<lambda>t. tr_id t = ObjectId transcriptId) (transcripts db) \<noteq> None \<longrightarrow>
                res_status res2 = 409
                \<and> res_data res2 = ExistingId (an_id existing2) (an_createdAt existing2)))
       \<and> (find (\<lambda>c. cp_analysisId c = ObjectId analysisId) (coachingPlans db) = Some existing3 \<longrightarrow>
            coachingPlans db3 = coachingPlans db
            \<and> ((case body_agentId of None \<Rightarrow> ''agent_001'' | Some a \<Rightarrow> a) \<noteq> []
                 \<and> valid_id analysisId
                 \<and> find (\<lambda>a. an_id a = ObjectId analysisId) (analyses db) \<noteq> None \<longrightarrow>
                res_status res3 = 409
                \<and> res_data res3 = ExistingId (cp_id existing3) (cp_createdAt existing3)))
       \<and> (one_per_upstream db \<longrightarrow>
            one_per_upstream db1 \<and> one_per_upstream db2 \<and> one_per_upstream db3)"
proof -
  note t = transcribe_existing [OF r1, of existing1]
  note a = analyze_existing [OF r2, of existing2]
  note c = coaching_existing [OF r3, of existing3]
  have inv: "one_per_upstream db \<longrightarrow>
               one_per_upstream db1 \<and> one_per_upstream db2 \<and> one_per_upstream db3"
    using t a c by (simp add: one_per_upstream_def)
  show ?thesis
    using t a c inv by blast
qed

text \<open>Witness: a store in which every stage has run once; each create call answers 409 with
  the identifier of the record that exists.\<close>

theorem existing_downstream_conflict_witness:
  "res_status (fst (transcribeAudio sample_renv (sample_stt (FetchFailed ''unreachable''))
       ''000000000000000000000001'' None full_db)) = 409
   \<and> res_data (fst (transcribeAudio sample_renv (sample_stt (FetchFailed ''unreachable''))
       ''000000000000000000000001'' None full_db)) = ExistingId 2 200
   \<and> res_status (fst (analyzeTranscript (\<lambda>a. []) sample_renv (sample_llm (CallFailed ''unreachable''))
       ''000000000000000000000002'' full_db)) = 409
   \<and> res_data (fst (analyzeTranscript (\<lambda>a. []) sample_renv (sample_llm (CallFailed ''unreachable''))
       ''000000000000000000000002'' full_db)) = ExistingId 3 300
   \<and> res_status (fst (generateCoachingPlan (\<lambda>c. []) sample_renv
       (sample_llm (CallFailed ''unreachable'')) ''000000000000000000000003'' None full_db)) = 409
   \<and> res_data (fst (generateCoachingPlan (\<lambda>c. []) sample_renv
       (sample_llm (CallFailed ''unreachable'')) ''000000000000000000000003'' None full_db))
      = ExistingId 4 400
   \<and> one_per_upstream full_db
   \<and> one_per_upstream (snd (transcribeAudio sample_renv (sample_stt (FetchFailed ''unreachable''))
       ''000000000000000000000001'' None full_db))"
proof -
  let ?r1 = "transcribeAudio sample_renv (sample_stt (FetchFailed ''unreachable''))
               ''000000000000000000000001'' None full_db"
  let ?r2 = "analyzeTranscript (\<lambda>a. []) sample_renv (sample_llm (CallFailed ''unreachable''))
               ''000000000000000000000002'' full_db"
  let ?r3 = "generateCoachingPlan (\<lambda>c. []) sample_renv (sample_llm (CallFailed ''unreachable''))
               ''000000000000000000000003'' None full_db"
  have h1: "?r1 = (fst ?r1, snd ?r1)" and h2: "?r2 = (fst ?r2, snd ?r2)"
    and h3: "?r3 = (fst ?r3, snd ?r3)" by simp_all
  have e1: "find (\<lambda>t. tr_audioFileId t = ObjectId ''000000000000000000000001'')
              (transcripts full_db) = Some sample_transcript"
    and e2: "find (\<lambda>a. an_transcriptId a = ObjectId ''000000000000000000000002'')
              (analyses full_db) = Some sample_analysis"
    and e3: "find (\<lambda>c. cp_analysisId c = ObjectId ''000000000000000000000003'')
              (coachingPlans full_db) = Some sample_plan"
    by (simp_all add: sample_id sample_id2 sample_id3 sample_defs)
  have u: "find (\<lambda>a. af_id a = ObjectId ''000000000000000000000001'') (audioFiles full_db) \<noteq> None"
    "find (\<lambda>t. tr_id t = ObjectId ''000000000000000000000002'') (transcripts full_db) \<noteq> None"
    "find (\<lambda>a. an_id a = ObjectId ''000000000000000000000003'') (analyses full_db) \<noteq> None"
    by (simp_all add: sample_id sample_id2 sample_id3 sample_defs)
  have inv: "one_per_upstream full_db"
    by (simp add: one_per_upstream_def sample_defs)
  show ?thesis
    using existing_downstream_conflict [OF h1 h2 h3, of sample_transcript sample_analysis sample_plan]
      e1 e2 e3 u inv sample_id sample_id2 sample_id3 sample_lang
    by (simp add: sample_transcript_def sample_analysis_def sample_plan_def)
qed

text \<open>
  The claim as stated fails where a check that comes before the conflict check stops the
  request: a transcript exists for the audio file, and the call answers 400 when the body
  names an unsupported language, and 404 when the audio file itself has been deleted
  (deleting an audio file leaves its transcript in the store).
\<close>

theorem existing_downstream_conflict_counterexample:
  "find (\<lambda>t. tr_audioFileId t = ObjectId ''000000000000000000000001'')
     (transcripts transcribed_db) = Some sample_transcript
   \<and> res_status (fst (transcribeAudio sample_renv (sample_stt (FetchFailed ''unreachable''))
        ''000000000000000000000001'' (Some ''xx'') transcribed_db)) = 400
   \<and> find (\<lambda>t. tr_audioFileId t = ObjectId ''000000000000000000000001'')
        (transcripts (transcribed_db\<lparr>audioFiles := []\<rparr>)) = Some sample_transcript
   \<and> res_status (fst (transcribeAudio sample_renv (sample_stt (FetchFailed ''unreachable''))
        ''000000000000000000000001'' None (transcribed_db\<lparr>audioFiles := []\<rparr>))) = 404"
  by (simp add: transcribeAudio_def db_ops Let_def failure_def sample_id sample_lang
      sample_defs getSupportedLanguages_def)

subsection \<open>Analysis\<close>

text \<open>
  C4. An analysis request succeeds only with the answer 201 and only if the model's reply
  holds a value (neither missing nor \<open>null\<close>) for \<open>sentiment.overall\<close>, for
  \<open>sentiment.score\<close> and for \<open>summary\<close>; then exactly one analysis is added. In every
  other case the request fails and the analyses are the same as before. No request to
  this endpoint changes another collection.
\<close>

theorem analysis_requires_fields:
  assumes run: "analyzeTranscript others renv env transcriptId db = (res, db')"
  shows "(res_success res \<longrightarrow>
            res_status res = 201
            \<and> (\<exists>r overall score summary.
                  llm_reply env = Parsed r
                  \<and> sub_field sj_overall (aj_sentiment r) = Val overall
                  \<and> sub_field sj_score (aj_sentiment r) = Val score
                  \<and> aj_summary r = Val summary)
            \<and> (\<exists>a. analyses db' = analyses db @ [a]))
       \<and> (\<not> res_success res \<longrightarrow>
            res_status res \<in> {400, 404, 409, 500} \<and> analyses db' = analyses db)
       \<and> audioFiles db' = audioFiles db \<and> transcripts db' = transcripts db
       \<and> coachingPlans db' = coachingPlans db"
proof (cases "valid_id transcriptId
              \<and> find (\<lambda>t. tr_id t = ObjectId transcriptId) (transcripts db) \<noteq> None
              \<and> find (\<lambda>a. an_transcriptId a = ObjectId transcriptId) (analyses db) = None")
  case False
  then show ?thesis
    using run
    by (auto simp: analyzeTranscript_def db_ops db_ops2 Let_def failure_def
        split: prod.splits if_splits option.splits)
next
  case True
  then obtain t where t: "find (\<lambda>t. tr_id t = ObjectId transcriptId) (transcripts db) = Some t"
    by auto
  let ?db3 = "logged (ReadOp Analyses) (logged (ReadOp AudioFiles) (logged (ReadOp Transcripts) db))"
  have p: "analyze_proceed others renv env (ObjectId transcriptId) t
             (find (\<lambda>a. af_id a = tr_audioFileId t) (audioFiles db)) ?db3 = (res, db')"
    using run True t
    by (simp add: analyzeTranscript_def db_ops db_ops2 Let_def)
  from analyze_proceed_cases [OF p] show ?thesis
  proof
    assume "res_status res = 500 \<and> \<not> res_success res \<and> db' = ?db3"
    then show ?thesis by (simp add: logged_def)
  next
    assume "res_status res = 201 \<and> res_success res
           \<and> (\<exists>r p a. llm_analyzeTranscript env (tr_text t) = Inr (r, p)
                  \<and> analysis_invalid_paths others a = []
                  \<and> an_sentiment a = with_default_confidence (aj_sentiment r)
                  \<and> an_summary a = aj_summary r
                  \<and> db' = logged (WriteOp Analyses) (?db3\<lparr>analyses := analyses ?db3 @ [a]\<rparr>))"
    then obtain r p a where ok: "res_status res = 201" "res_success res"
      and llm: "llm_analyzeTranscript env (tr_text t) = Inr (r, p)"
      and valid: "analysis_invalid_paths others a = []"
      and sen: "an_sentiment a = with_default_confidence (aj_sentiment r)"
      and sum: "an_summary a = aj_summary r"
      and db': "db' = logged (WriteOp Analyses) (?db3\<lparr>analyses := analyses ?db3 @ [a]\<rparr>)"
      by blast
    have "llm_reply env = Parsed r" using llm by (rule llm_analyze_Inr)
    moreover have "\<exists>overall score summary.
           sub_field sj_overall (aj_sentiment r) = Val overall
           \<and> sub_field sj_score (aj_sentiment r) = Val score
           \<and> aj_summary r = Val summary"
      using analysis_valid_fields [OF valid] sen sum by simp
    ultimately show ?thesis
      using ok db' by (auto simp: logged_def)
  qed
qed

text \<open>Witness: a complete reply is stored; the same reply with \<open>summary: null\<close> is
  refused and nothing is stored.\<close>

theorem analysis_requires_fields_witness:
  "res_success (fst (analyzeTranscript (\<lambda>a. []) sample_renv
       (sample_llm (Parsed sample_analysis_reply)) ''000000000000000000000002'' transcribed_db))
   \<and> res_status (fst (analyzeTranscript (\<lambda>a. []) sample_renv
       (sample_llm (Parsed sample_analysis_reply)) ''000000000000000000000002'' transcribed_db))
      = 201
   \<and> (\<exists>a. analyses (snd (analyzeTranscript (\<lambda>a. []) sample_renv
       (sample_llm (Parsed sample_analysis_reply)) ''000000000000000000000002'' transcribed_db))
      = [a])
   \<and> \<not> res_success (fst (analyzeTranscript (\<lambda>a. []) sample_renv
       (sample_llm (Parsed (sample_analysis_reply\<lparr>aj_summary := Null\<rparr>)))
       ''000000000000000000000002'' transcribed_db))
   \<and> analyses (snd (analyzeTranscript (\<lambda>a. []) sample_renv
       (sample_llm (Parsed (sample_analysis_reply\<lparr>aj_summary := Null\<rparr>)))
       ''000000000000000000000002'' transcribed_db)) = []"
proof -
  let ?ok = "analyzeTranscript (\<lambda>a. []) sample_renv
       (sample_llm (Parsed sample_analysis_reply)) ''000000000000000000000002'' transcribed_db"
  let ?bad = "analyzeTranscript (\<lambda>a. []) sample_renv
       (sample_llm (Parsed (sample_analysis_reply\<lparr>aj_summary := Null\<rparr>)))
       ''000000000000000000000002'' transcribed_db"
  have h1: "?ok = (fst ?ok, snd ?ok)" and h2: "?bad = (fst ?bad, snd ?bad)" by simp_all
  have s1: "res_success (fst ?ok)"
    by (simp add: analyzeTranscript_def analyze_proceed_def db_ops db_ops2 Let_def success_def
        llm_analyzeTranscript_def llm_analyze_attempt_def analysis_reply_error_def
        apiKey_missing_def analysis_invalid_paths_def with_default_confidence_def
        sample_id2 sample_defs)
  have s2: "\<not> res_success (fst ?bad)"
    by (simp add: analyzeTranscript_def analyze_proceed_def db_ops db_ops2 Let_def failure_def
        llm_analyzeTranscript_def llm_analyze_attempt_def analysis_reply_error_def
        apiKey_missing_def sample_id2 sample_defs)
  show ?thesis
    using analysis_requires_fields [OF h1] analysis_requires_fields [OF h2] s1 s2
    by (simp add: sample_defs)
qed

subsection \<open>Coaching\<close>

text \<open>
  C5 (as amended). A coaching request succeeds only with the answer 201 and only if the
  model's reply holds a value (neither missing nor \<open>null\<close>) for \<open>agentId\<close>, for
  \<open>overallPerformance.score\<close> and for \<open>overallPerformance.level\<close>; then exactly one
  coaching plan is added. In every other case the request fails and the coaching plans are
  the same as before. No request to this endpoint changes another collection.
  In the other direction, the request does succeed when it passes the checks before the
  call to the model (the \<open>agentId\<close> of the body is not empty, the identifier is
  well-formed, the analysis exists and has no coaching plan), the audio file of the
  analysis still exists, the key of the provider is set, and the parsed reply holds a
  non-empty \<open>agentId\<close>, a score above 0 and at most 100, one of the five levels of the
  schema, and other sections that pass their validators: the answer is 201 and the one
  plan added holds the reply's \<open>agentId\<close> and \<open>overallPerformance\<close>, the
  identifier of the analysis and the audio file of the analysis.
\<close>

theorem coaching_requires_fields:
  assumes run: "generateCoachingPlan others renv env analysisId body_agentId db = (res, db')"
  shows "(res_success res \<longrightarrow>
            res_status res = 201
            \<and> (\<exists>r agent score level.
                  llm_reply env = Parsed r
                  \<and> cj_agentId r = Val agent
                  \<and> sub_field pj_score (cj_overallPerformance r) = Val score
                  \<and> sub_field pj_level (cj_overallPerformance r) = Val level)
            \<and> (\<exists>c. coachingPlans db' = coachingPlans db @ [c]))
       \<and> (\<not> res_success res \<longrightarrow>
            res_status res \<in> {400, 404, 409, 500} \<and> coachingPlans db' = coachingPlans db)
       \<and> audioFiles db' = audioFiles db \<and> transcripts db' = transcripts db
       \<and> analyses db' = analyses db
       \<and> ((case body_agentId of None \<Rightarrow> ''agent_001'' | Some a \<Rightarrow> a) \<noteq> []
            \<and> valid_id analysisId
            \<and> find (\<lambda>a. an_id a = ObjectId analysisId) (analyses db) = Some analysis
            \<and> find (\<lambda>c. cp_analysisId c = ObjectId analysisId) (coachingPlans db) = None
            \<and> find (\<lambda>f. af_id f = an_audioFileId analysis) (audioFiles db) \<noteq> None
            \<and> \<not> apiKey_missing (llm_apiKey env)
            \<and> llm_reply env = Parsed r
            \<and> cj_agentId r = Val agent \<and> agent \<noteq> []
            \<and> sub_field pj_score (cj_overallPerformance r) = Val score
            \<and> 0 < score \<and> score \<le> 100
            \<and> sub_field pj_level (cj_overallPerformance r) = Val level
            \<and> level \<in> set [''excellent'', ''good'', ''average'', ''needs_improvement'', ''poor'']
            \<and> (\<forall>c. cp_strengths c = cj_strengths r
                     \<and> cp_improvementAreas c = cj_improvementAreas r
                     \<and> cp_actionItems c = cj_actionItems r
                     \<and> cp_trainingRecommendations c = cj_trainingRecommendations r
                     \<and> cp_followUpPlan c = cj_followUpPlan r
                     \<and> cp_customNotes c = cj_customNotes r \<longrightarrow> others c = []) \<longrightarrow>
            res_status res = 201 \<and> res_success res
            \<and> (\<exists>c. coachingPlans db' = coachingPlans db @ [c]
                   \<and> cp_analysisId c = ObjectId analysisId
                   \<and> cp_audioFileId c = an_audioFileId analysis
                   \<and> cp_agentId c = Val agent
                   \<and> cp_overallPerformance c = cj_overallPerformance r
                   \<and> res_data res = CoachingPlanData c))"
proof -
  have main: "(res_success res \<longrightarrow>
            res_status res = 201
            \<and> (\<exists>r agent score level.
                  llm_reply env = Parsed r
                  \<and> cj_agentId r = Val agent
                  \<and> sub_field pj_score (cj_overallPerformance r) = Val score
                  \<and> sub_field pj_level (cj_overallPerformance r) = Val level)
            \<and> (\<exists>c. coachingPlans db' = coachingPlans db @ [c]))
       \<and> (\<not> res_success res \<longrightarrow>
            res_status res \<in> {400, 404, 409, 500} \<and> coachingPlans db' = coachingPlans db)
       \<and> audioFiles db' = audioFiles db \<and> transcripts db' = transcripts db
       \<and> analyses db' = analyses db"
  proof (cases "(case body_agentId of None \<Rightarrow> ''agent_001'' | Some a \<Rightarrow> a) \<noteq> []
                \<and> valid_id analysisId
                \<and> find (\<lambda>a. an_id a = ObjectId analysisId) (analyses db) \<noteq> None
                \<and> find (\<lambda>c. cp_analysisId c = ObjectId analysisId) (coachingPlans db) = None")
    case False
    then show ?thesis
      using run
      by (auto simp: generateCoachingPlan_def db_ops db_ops2 Let_def failure_def
          split: prod.splits if_splits option.splits)
  next
    case True
    then obtain a where a: "find (\<lambda>a. an_id a = ObjectId analysisId) (analyses db) = Some a"
      by auto
    let ?db4 = "logged (ReadOp CoachingPlans) (logged (ReadOp AudioFiles)
                  (logged (ReadOp Transcripts) (logged (ReadOp Analyses) db)))"
    have p: "coaching_proceed others renv env (ObjectId analysisId) a
               (find (\<lambda>f. af_id f = an_audioFileId a) (audioFiles db))
               (case body_agentId of None \<Rightarrow> ''agent_001'' | Some a \<Rightarrow> a) ?db4 = (res, db')"
      using run True a
      by (simp add: generateCoachingPlan_def db_ops db_ops2 Let_def)
    from coaching_proceed_cases [OF p] show ?thesis
    proof
      assume "res_status res = 500 \<and> \<not> res_success res \<and> db' = ?db4"
      then show ?thesis by (simp add: logged_def)
    next
      assume "res_status res = 201 \<and> res_success res
             \<and> (\<exists>r c. llm_generateCoachingPlan env a
                          (case body_agentId of None \<Rightarrow> ''agent_001'' | Some a \<Rightarrow> a) = Inr r
                    \<and> coachingPlan_invalid_paths others c = []
                    \<and> cp_agentId c = cj_agentId r
                    \<and> cp_overallPerformance c = cj_overallPerformance r
                    \<and> db' = logged (WriteOp CoachingPlans)
                             (?db4\<lparr>coachingPlans := coachingPlans ?db4 @ [c]\<rparr>))"
      then obtain r c where ok: "res_status res = 201" "res_success res"
        and llm: "llm_generateCoachingPlan env a
                    (case body_agentId of None \<Rightarrow> ''agent_001'' | Some a \<Rightarrow> a) = Inr r"
        and valid: "coachingPlan_invalid_paths others c = []"
        and ag: "cp_agentId c = cj_agentId r"
        and perf: "cp_overallPerformance c = cj_overallPerformance r"
        and db': "db' = logged (WriteOp CoachingPlans)
                          (?db4\<lparr>coachingPlans := coachingPlans ?db4 @ [c]\<rparr>)"
        by blast
      have "llm_reply env = Parsed r" using llm by (rule llm_coaching_Inr)
      moreover have "\<exists>agent score level.
             cj_agentId r = Val agent
             \<and> sub_field pj_score (cj_overallPerformance r) = Val score
             \<and> sub_field pj_level (cj_overallPerformance r) = Val level"
        using coachingPlan_valid_fields [OF valid] ag perf by simp
      ultimately show ?thesis
        using ok db' by (auto simp: logged_def)
    qed
  qed
  have suff: "res_status res = 201 \<and> res_success res
            \<and> (\<exists>c. coachingPlans db' = coachingPlans db @ [c]
                   \<and> cp_analysisId c = ObjectId analysisId
                   \<and> cp_audioFileId c = an_audioFileId analysis
                   \<and> cp_agentId c = Val agent
                   \<and> cp_overallPerformance c = cj_overallPerformance r
                   \<and> res_data res = CoachingPlanData c)"
    if h: "(case body_agentId of None \<Rightarrow> ''agent_001'' | Some a \<Rightarrow> a) \<noteq> []
            \<and> valid_id analysisId
            \<and> find (\<lambda>a. an_id a = ObjectId analysisId) (analyses db) = Some analysis
            \<and> find (\<lambda>c. cp_analysisId c = ObjectId analysisId) (coachingPlans db) = None
            \<and> find (\<lambda>f. af_id f = an_audioFileId analysis) (audioFiles db) \<noteq> None
            \<and> \<not> apiKey_missing (llm_apiKey env)
            \<and> llm_reply env = Parsed r
            \<and> cj_agentId r = Val agent \<and> agent \<noteq> []
            \<and> sub_field pj_score (cj_overallPerformance r) = Val score
            \<and> 0 < score \<and> score \<le> 100
            \<and> sub_field pj_level (cj_overallPerformance r) = Val level
            \<and> level \<in> set [''excellent'', ''good'', ''average'', ''needs_improvement'', ''poor'']
            \<and> (\<forall>c. cp_strengths c = cj_strengths r
                     \<and> cp_improvementAreas c = cj_improvementAreas r
                     \<and> cp_actionItems c = cj_actionItems r
                     \<and> cp_trainingRecommendations c = cj_trainingRecommendations r
                     \<and> cp_followUpPlan c = cj_followUpPlan r
                     \<and> cp_customNotes c = cj_customNotes r \<longrightarrow> others c = [])"
  proof -
    let ?agentId = "case body_agentId of None \<Rightarrow> ''agent_001'' | Some a \<Rightarrow> a"
    obtain audioFile where af: "find (\<lambda>f. af_id f = an_audioFileId analysis) (audioFiles db)
                                  = Some audioFile"
      using h by blast
    have af_id: "af_id audioFile = an_audioFileId analysis"
      using af by (auto simp: find_Some_iff)
    obtain perf where perf: "cj_overallPerformance r = Val perf"
      using h by (cases "cj_overallPerformance r") auto
    have level: "level \<noteq> []"
      using h by auto
    have llm: "llm_generateCoachingPlan env analysis ?agentId = Inr r"
      using h perf level
      by (simp add: llm_generateCoachingPlan_def llm_coaching_attempt_def
          coaching_reply_error_def)
    have valid: "coachingPlan_invalid_paths others c = []"
      if "cp_agentId c = cj_agentId r" "cp_overallPerformance c = cj_overallPerformance r"
         "cp_strengths c = cj_strengths r" "cp_improvementAreas c = cj_improvementAreas r"
         "cp_actionItems c = cj_actionItems r"
         "cp_trainingRecommendations c = cj_trainingRecommendations r"
         "cp_followUpPlan c = cj_followUpPlan r" "cp_customNotes c = cj_customNotes r"
      for c
    proof -
      have "others c = []" using h that by blast
      then show ?thesis
        using h that(1,2) level by (simp add: coachingPlan_invalid_paths_def Let_def)
    qed
    show ?thesis
      using run h af af_id llm valid
      by (auto simp: generateCoachingPlan_def coaching_proceed_def CoachingPlan_save_def
          db_ops db_ops2 Let_def success_def split: prod.splits)
  qed
  show ?thesis
    using main suff by blast
qed

text \<open>Witness: a complete reply is stored, by the second half of the theorem; the
  same reply without \<open>agentId\<close> is refused and nothing is stored.\<close>

theorem coaching_requires_fields_witness:
  "res_success (fst (generateCoachingPlan (\<lambda>c. []) sample_renv
       (sample_llm (Parsed sample_coaching_reply)) ''000000000000000000000003''
       (Some ''agent_007'') analysed_db))
   \<and> (\<exists>c. coachingPlans (snd (generateCoachingPlan (\<lambda>c. []) sample_renv
       (sample_llm (Parsed sample_coaching_reply)) ''000000000000000000000003''
       (Some ''agent_007'') analysed_db)) = [c])
   \<and> \<not> res_success (fst (generateCoachingPlan (\<lambda>c. []) sample_renv
       (sample_llm (Parsed (sample_coaching_reply\<lparr>cj_agentId := Undefined\<rparr>)))
       ''000000000000000000000003'' (Some ''agent_007'') analysed_db))
   \<and> coachingPlans (snd (generateCoachingPlan (\<lambda>c. []) sample_renv
       (sample_llm (Parsed (sample_coaching_reply\<lparr>cj_agentId := Undefined\<rparr>)))
       ''000000000000000000000003'' (Some ''agent_007'') analysed_db)) = []"
proof -
  let ?ok = "generateCoachingPlan (\<lambda>c. []) sample_renv
       (sample_llm (Parsed sample_coaching_reply)) ''000000000000000000000003''
       (Some ''agent_007'') analysed_db"
  let ?bad = "generateCoachingPlan (\<lambda>c. []) sample_renv
       (sample_llm (Parsed (sample_coaching_reply\<lparr>cj_agentId := Undefined\<rparr>)))
       ''000000000000000000000003'' (Some ''agent_007'') analysed_db"
  have h1: "?ok = (fst ?ok, snd ?ok)" and h2: "?bad = (fst ?bad, snd ?bad)" by simp_all
  note ok = coaching_requires_fields [OF h1, where analysis = sample_analysis
      and r = sample_coaching_reply and agent = "''agent_007''" and score = 85
      and level = "''good''"]
  have request: "(case Some ''agent_007'' of None \<Rightarrow> ''agent_001'' | Some a \<Rightarrow> a) \<noteq> []
      \<and> valid_id ''000000000000000000000003''
      \<and> find (\<lambda>a. an_id a = ObjectId ''000000000000000000000003'') (analyses analysed_db)
          = Some sample_analysis
      \<and> find (\<lambda>c. cp_analysisId c = ObjectId ''000000000000000000000003'')
            (coachingPlans analysed_db) = None
      \<and> find (\<lambda>f. af_id f = an_audioFileId sample_analysis) (audioFiles analysed_db) \<noteq> None"
    by (simp add: sample_id3 sample_defs)
  have reply: "\<not> apiKey_missing (llm_apiKey (sample_llm (Parsed sample_coaching_reply)))
      \<and> llm_reply (sample_llm (Parsed sample_coaching_reply)) = Parsed sample_coaching_reply
      \<and> cj_agentId sample_coaching_reply = Val ''agent_007'' \<and> ''agent_007'' \<noteq> []
      \<and> sub_field pj_score (cj_overallPerformance sample_coaching_reply) = Val 85
      \<and> (0 :: real) < 85 \<and> (85 :: real) \<le> 100
      \<and> sub_field pj_level (cj_overallPerformance sample_coaching_reply) = Val ''good''
      \<and> ''good'' \<in> set [''excellent'', ''good'', ''average'', ''needs_improvement'', ''poor'']"
    by (simp add: apiKey_missing_def sample_llm_def sample_coaching_reply_def)
  have s1: "res_success (fst ?ok)"
    using ok request reply by blast
  have s2: "\<not> res_success (fst ?bad)"
    by (simp add: generateCoachingPlan_def coaching_proceed_def db_ops db_ops2 Let_def
        failure_def llm_generateCoachingPlan_def llm_coaching_attempt_def
        coaching_reply_error_def apiKey_missing_def sample_id3 sample_defs)
  have added: "\<exists>c. coachingPlans (snd ?ok) = coachingPlans analysed_db @ [c]"
    using ok s1 by blast
  have kept: "coachingPlans (snd ?bad) = coachingPlans analysed_db"
    using coaching_requires_fields [OF h2] s2 by blast
  show ?thesis
    using s1 s2 added kept by (simp add: sample_defs)
qed

text \<open>
  The claim as stated ("exactly when") fails: the three fields are present, but the level
  is none of the values that the schema's \<open>enum\<close> allows, so \<open>save\<close> throws and no
  coaching plan is stored.
\<close>

theorem coaching_requires_fields_counterexample:
  "cj_agentId (sample_coaching_reply
       \<lparr>cj_overallPerformance := Val \<lparr>pj_score = Val 85, pj_level = Val ''superb''\<rparr>\<rparr>)
     = Val ''agent_007''
   \<and> cj_overallPerformance (sample_coaching_reply
       \<lparr>cj_overallPerformance := Val \<lparr>pj_score = Val 85, pj_level = Val ''superb''\<rparr>\<rparr>)
     = Val \<lparr>pj_score = Val 85, pj_level = Val ''superb''\<rparr>
   \<and> res_status (fst (generateCoachingPlan (\<lambda>c. []) sample_renv
       (sample_llm (Parsed (sample_coaching_reply
          \<lparr>cj_overallPerformance := Val \<lparr>pj_score = Val 85, pj_level = Val ''superb''\<rparr>\<rparr>)))
       ''000000000000000000000003'' (Some ''agent_007'') analysed_db)) = 500
   \<and> res_error (fst (generateCoachingPlan (\<lambda>c. []) sample_renv
       (sample_llm (Parsed (sample_coaching_reply
          \<lparr>cj_overallPerformance := Val \<lparr>pj_score = Val 85, pj_level = Val ''superb''\<rparr>\<rparr>)))
       ''000000000000000000000003'' (Some ''agent_007'') analysed_db))
     = Some (ValidationMessage [''overallPerformance.level''])
   \<and> coachingPlans (snd (generateCoachingPlan (\<lambda>c. []) sample_renv
       (sample_llm (Parsed (sample_coaching_reply
          \<lparr>cj_overallPerformance := Val \<lparr>pj_score = Val 85, pj_level = Val ''superb''\<rparr>\<rparr>)))
       ''000000000000000000000003'' (Some ''agent_007'') analysed_db)) = []"
  by (simp add: generateCoachingPlan_def coaching_proceed_def db_ops db_ops2 Let_def
        failure_def llm_generateCoachingPlan_def llm_coaching_attempt_def
        coaching_reply_error_def apiKey_missing_def coachingPlan_invalid_paths_def
        sample_id3 sample_defs)

subsection \<open>Upload\<close>


lemma sample_limit: "parseFileSize ''50MB'' = 52428800"
  by (simp add: parseFileSize_def is_digit_def is_upper_def digits_value_def unit_bytes_def)

lemma sample_upload_name:
  "extname ''call.WAV'' = ''.WAV''" "toLowerCase ''.WAV'' = ''.wav''"
  by code_simp+


lemma extname_empty: "extname [] = []"
  by (simp add: extname_def)

lemma allowed_ext_nonempty:
  "toLowerCase (extname n) \<in> set allowedExtensions \<Longrightarrow> extname n \<noteq> [] \<and> n \<noteq> []"
  by (auto simp: allowedExtensions_def toLowerCase_def extname_empty)

lemma sample_small_limit: "parseFileSize ''10B'' = 10"
  by (simp add: parseFileSize_def is_digit_def is_upper_def digits_value_def unit_bytes_def)

text \<open>
  C7. An upload whose declared MIME type is not on the allow-list is refused by the filter
  with the code \<open>INVALID_FILE_TYPE\<close>; one whose MIME type is allowed and whose lower-cased
  extension is not on the allow-list is refused with \<open>INVALID_FILE_EXTENSION\<close>; both are
  answered with 400 and leave the store as it was. An upload succeeds only if both are on
  their lists, and then exactly one audio file is added, with the status \<open>uploaded\<close> and
  the size of the uploaded file. For a size limit of at most \<open>2 ^ 53\<close> bytes, every
  upload that passes both checks and is smaller than the limit succeeds, and every
  non-empty upload that passes both checks and has reached the limit is answered with 413
  and leaves the store as it was.
\<close>

theorem upload_validation:
  assumes run: "post_upload env renv (Some file) db = (res, db')"
  shows "(uf_mimetype file \<notin> set allowedTypes \<longrightarrow>
            (\<exists>m. fileFilter file = Some (INVALID_FILE_TYPE, m))
            \<and> res_status res = 400 \<and> \<not> res_success res \<and> db' = db)
       \<and> (uf_mimetype file \<in> set allowedTypes
            \<and> toLowerCase (extname (uf_originalname file)) \<notin> set allowedExtensions \<longrightarrow>
            (\<exists>m. fileFilter file = Some (INVALID_FILE_EXTENSION, m))
            \<and> res_status res = 400 \<and> \<not> res_success res \<and> db' = db)
       \<and> (res_success res \<longrightarrow>
            uf_mimetype file \<in> set allowedTypes
            \<and> toLowerCase (extname (uf_originalname file)) \<in> set allowedExtensions
            \<and> res_status res = 201
            \<and> (\<exists>a. audioFiles db' = audioFiles db @ [a]
                   \<and> af_status a = ''uploaded'' \<and> af_size a = uf_size file
                   \<and> res_data res = AudioFileData a))
       \<and> (uf_mimetype file \<in> set allowedTypes
            \<and> toLowerCase (extname (uf_originalname file)) \<in> set allowedExtensions
            \<and> parseFileSize (up_maxFileSize env) \<le> 2 ^ 53
            \<and> uf_size file < parseFileSize (up_maxFileSize env) \<longrightarrow>
            res_success res)
       \<and> (uf_mimetype file \<in> set allowedTypes
            \<and> toLowerCase (extname (uf_originalname file)) \<in> set allowedExtensions
            \<and> parseFileSize (up_maxFileSize env) \<le> 2 ^ 53
            \<and> 0 < uf_size file
            \<and> parseFileSize (up_maxFileSize env) \<le> uf_size file \<longrightarrow>
            res_status res = 413 \<and> \<not> res_success res \<and> db' = db)"
proof -
  have ne: "extname (uf_originalname file) \<noteq> [] \<and> uf_originalname file \<noteq> []"
    if "toLowerCase (extname (uf_originalname file)) \<in> set allowedExtensions"
    using that by (rule allowed_ext_nonempty)
  show ?thesis
    using run ne
    by (auto simp: post_upload_def upload_middleware_def fileFilter_def uploadAudio_def
        upload_error_response_def AudioFile_save_def audioFile_invalid_paths_def logged_def
        failure_def success_def Let_def allowedTypes_def
        split: option.splits if_splits sum.splits prod.splits upload_error_code.splits)
qed

text \<open>Witness: \<open>call.WAV\<close> is accepted as \<open>audio/wav\<close> and refused as
  \<open>text/plain\<close>; with a limit of \<open>10B\<close>, a file of 10 bytes is refused with 413.\<close>

theorem upload_validation_witness:
  "res_success (fst (post_upload sample_upload_env sample_renv
       (Some \<lparr>uf_originalname = ''call.WAV'', uf_mimetype = ''audio/wav'', uf_size = 10240\<rparr>)
       sample_db))
   \<and> (\<exists>a. audioFiles (snd (post_upload sample_upload_env sample_renv
       (Some \<lparr>uf_originalname = ''call.WAV'', uf_mimetype = ''audio/wav'', uf_size = 10240\<rparr>)
       sample_db)) = [sample_audio, a] \<and> af_status a = ''uploaded'' \<and> af_size a = 10240)
   \<and> fileFilter \<lparr>uf_originalname = ''call.WAV'', uf_mimetype = ''text/plain'', uf_size = 10240\<rparr>
       = Some (INVALID_FILE_TYPE, ''Invalid file type. Allowed types: audio/wav, audio/mpeg, audio/mp3'')
   \<and> res_status (fst (post_upload sample_upload_env sample_renv
       (Some \<lparr>uf_originalname = ''call.WAV'', uf_mimetype = ''text/plain'', uf_size = 10240\<rparr>)
       sample_db)) = 400
   \<and> res_status (fst (post_upload (sample_upload_env\<lparr>up_maxFileSize := ''10B''\<rparr>) sample_renv
       (Some \<lparr>uf_originalname = ''call.WAV'', uf_mimetype = ''audio/wav'', uf_size = 10\<rparr>)
       sample_db)) = 413"
proof -
  let ?good = "\<lparr>uf_originalname = ''call.WAV'', uf_mimetype = ''audio/wav'', uf_size = 10240\<rparr>"
  let ?bad = "\<lparr>uf_originalname = ''call.WAV'', uf_mimetype = ''text/plain'', uf_size = 10240\<rparr>"
  let ?r1 = "post_upload sample_upload_env sample_renv (Some ?good) sample_db"
  let ?r2 = "post_upload sample_upload_env sample_renv (Some ?bad) sample_db"
  let ?full = "\<lparr>uf_originalname = ''call.WAV'', uf_mimetype = ''audio/wav'', uf_size = 10\<rparr>"
  let ?r3 = "post_upload (sample_upload_env\<lparr>up_maxFileSize := ''10B''\<rparr>) sample_renv
               (Some ?full) sample_db"
  have h1: "?r1 = (fst ?r1, snd ?r1)" and h2: "?r2 = (fst ?r2, snd ?r2)"
    and h3: "?r3 = (fst ?r3, snd ?r3)" by simp_all
  have a3: "uf_mimetype ?full \<in> set allowedTypes
            \<and> toLowerCase (extname (uf_originalname ?full)) \<in> set allowedExtensions
            \<and> parseFileSize (up_maxFileSize (sample_upload_env\<lparr>up_maxFileSize := ''10B''\<rparr>))
                 \<le> 2 ^ 53
            \<and> 0 < uf_size ?full
            \<and> parseFileSize (up_maxFileSize (sample_upload_env\<lparr>up_maxFileSize := ''10B''\<rparr>))
                 \<le> uf_size ?full"
    by (simp add: allowedTypes_def allowedExtensions_def sample_upload_name sample_small_limit)
  have a1: "uf_mimetype ?good \<in> set allowedTypes
            \<and> toLowerCase (extname (uf_originalname ?good)) \<in> set allowedExtensions
            \<and> parseFileSize (up_maxFileSize sample_upload_env) \<le> 2 ^ 53
            \<and> uf_size ?good < parseFileSize (up_maxFileSize sample_upload_env)"
    by (simp add: allowedTypes_def allowedExtensions_def sample_upload_name sample_limit
        sample_upload_env_def)
  have a2: "uf_mimetype ?bad \<notin> set allowedTypes"
    by (simp add: allowedTypes_def)
  have f: "fileFilter ?bad = Some (INVALID_FILE_TYPE,
             ''Invalid file type. Allowed types: audio/wav, audio/mpeg, audio/mp3'')"
    by (simp add: fileFilter_def allowedTypes_def)
  note u1 = upload_validation [OF h1] and u2 = upload_validation [OF h2]
  have s1: "res_success (fst ?r1)"
    using u1 a1 by blast
  have s2: "\<exists>a. audioFiles (snd ?r1) = audioFiles sample_db @ [a]
                   \<and> af_status a = ''uploaded'' \<and> af_size a = uf_size ?good"
    using u1 s1 by blast
  have s3: "res_status (fst ?r2) = 400"
    using u2 a2 by blast
  have s4: "res_status (fst ?r3) = 413"
    using upload_validation [OF h3] a3 by blast
  show ?thesis
    using s1 s2 s3 s4 f by (simp add: sample_db_def)
qed

subsection \<open>Malformed identifiers\<close>

text \<open>
  C8. A request to any handler that takes the identifier of a document in the path (read,
  update, delete or create the next stage; audio files, transcripts, analyses and
  coaching plans) with an identifier that is not 24 hexadecimal digits is answered with
  400, and the store is exactly as before: no collection has changed and no access to the
  store, read or write, has been made.
\<close>

theorem malformed_id_rejected:
  assumes bad: "\<not> valid_id (request_id req)"
    and run: "handle out req db = (res, db')"
  shows "res_status res = 400 \<and> \<not> res_success res \<and> db' = db
         \<and> accesses db' = accesses db"
proof -
  have "res_status res = 400 \<and> \<not> res_success res \<and> db' = db"
  proof (cases req)
    case (UpdateStatus i b)
    then show ?thesis using bad run
      by (auto simp: updateStatus_def failure_def split: option.splits if_splits)
  next
    case (TranscribeAudio i b)
    then show ?thesis using bad run
      by (auto simp: transcribeAudio_def failure_def Let_def split: option.splits if_splits)
  next
    case (UpdateTranscript i b)
    then show ?thesis using bad run
      by (auto simp: updateTranscript_def failure_def split: option.splits if_splits)
  next
    case (GenerateCoachingPlan i b)
    then show ?thesis using bad run
      by (auto simp: generateCoachingPlan_def failure_def Let_def split: option.splits if_splits)
  next
    case (UpdateCoachingPlan i b)
    then show ?thesis using bad run
      by (auto simp: updateCoachingPlan_def failure_def split: option.splits if_splits)
  qed (use bad run in \<open>auto simp: getUploadInfo_def deleteUpload_def getTranscript_def
      getTranscriptByAudioFile_def deleteTranscript_def analyzeTranscript_def getAnalysis_def
      getAnalysisByTranscript_def deleteAnalysis_def getCoachingPlan_def
      getCoachingPlanByAnalysis_def deleteCoachingPlan_def failure_def\<close>)
  then show ?thesis by simp
qed

text \<open>Witness: the identifier \<open>abc\<close>, for a transcription and for reading an
  analysis.\<close>

theorem malformed_id_rejected_witness:
  "\<not> valid_id ''abc''
   \<and> res_status (fst (handle sample_outside (TranscribeAudio ''abc'' None) full_db)) = 400
   \<and> snd (handle sample_outside (TranscribeAudio ''abc'' None) full_db) = full_db
   \<and> res_status (fst (handle sample_outside (GetAnalysis ''abc'') full_db)) = 400
   \<and> snd (handle sample_outside (GetAnalysis ''abc'') full_db) = full_db"
proof -
  let ?r1 = "handle sample_outside (TranscribeAudio ''abc'' None) full_db"
  let ?r2 = "handle sample_outside (GetAnalysis ''abc'') full_db"
  have bad: "\<not> valid_id ''abc''" by (simp add: valid_id_def)
  have b1: "\<not> valid_id (request_id (TranscribeAudio ''abc'' None))"
    and b2: "\<not> valid_id (request_id (GetAnalysis ''abc''))"
    using bad by simp_all
  have h1: "?r1 = (fst ?r1, snd ?r1)" and h2: "?r2 = (fst ?r2, snd ?r2)" by simp_all
  show ?thesis
    using malformed_id_rejected [OF b1 h1] malformed_id_rejected [OF b2 h2] bad by simp
qed



subsection \<open>Pagination\<close>





lemma listed_simps [simp]:
  "res_pagination (listed d pg) = Some pg" "res_data (listed d pg) = d"
  "res_status (listed d pg) = 200" "res_success (listed d pg)"
  by (simp_all add: listed_def success_def)

lemma failure_simps [simp]:
  "res_pagination (failure c m e) = None" "res_status (failure c m e) = c"
  by (simp_all add: failure_def)

















end
